theory Spec2Isabelle
  imports Complex_Main "HOL-Library.AList"
begin

chapter \<open>The model\<close>

section \<open>JavaScript strings and values\<close>

text \<open>
  A JavaScript string is an Isabelle \<open>string\<close>: one \<open>char\<close> per code unit, for the
  code units below 256. \<open>s.slice(0, n)\<close> is \<open>take n s\<close>, a string is truthy when it is
  not empty, and an optional property (\<open>undefined\<close> when absent) is an \<open>option\<close>.
\<close>

definition js_slice0 :: "nat \<Rightarrow> string \<Rightarrow> string" where
  "js_slice0 n s = take n s"

definition truthy_str :: "string \<Rightarrow> bool" where
  "truthy_str s = (s \<noteq> [])"

text \<open>The code units that \<open>trim()\<close> strips and \<open>\s\<close> matches, among those below 256:
  tab, line feed, vertical tab, form feed, carriage return, space, no-break space.\<close>

definition js_ws :: "char \<Rightarrow> bool" where
  "js_ws c = (c \<in> set [CHR 0x09, CHR 0x0A, CHR 0x0B, CHR 0x0C, CHR 0x0D, CHR 0x20, CHR 0xA0])"

definition js_trim :: "string \<Rightarrow> string" where
  "js_trim s = rev (dropWhile js_ws (rev (dropWhile js_ws s)))"

text \<open>\<open>s?.trim()\<close> as a condition: the string is present and not blank.\<close>

definition truthy_trim :: "string option \<Rightarrow> bool" where
  "truthy_trim so = (case so of None \<Rightarrow> False | Some s \<Rightarrow> truthy_str (js_trim s))"

text \<open>\<open>s.replace(/\s+/g, "_")\<close>: every maximal run of whitespace becomes one underscore.\<close>

function replace_ws_runs :: "string \<Rightarrow> string" where
  "replace_ws_runs [] = []"
| "replace_ws_runs (c # cs) =
     (if js_ws c then CHR ''_'' # replace_ws_runs (dropWhile js_ws cs)
      else c # replace_ws_runs cs)"
  by pat_completeness auto
termination
  by (relation "measure length") (auto simp: length_dropWhile_le less_Suc_eq_le)

text \<open>\<open>s.replace(c, r)\<close> with a one-character string pattern: only the first occurrence
  is replaced.\<close>

fun replace_first :: "char \<Rightarrow> string \<Rightarrow> string \<Rightarrow> string" where
  "replace_first c r [] = []"
| "replace_first c r (x # xs) = (if x = c then r @ xs else x # replace_first c r xs)"

text \<open>\<open>toLowerCase()\<close> and the upper-case canonical form of a case-insensitive regular
  expression, on the code units below 256 whose image stays below 256.\<close>

definition js_lower_char :: "char \<Rightarrow> char" where
  "js_lower_char c =
     (let n = (of_char c :: nat)
      in if (65 \<le> n \<and> n \<le> 90) \<or> (192 \<le> n \<and> n \<le> 222 \<and> n \<noteq> 215) then char_of (n + 32) else c)"

definition toLowerCase :: "string \<Rightarrow> string" where
  "toLowerCase s = map js_lower_char s"

definition js_upper_char :: "char \<Rightarrow> char" where
  "js_upper_char c =
     (let n = (of_char c :: nat)
      in if (97 \<le> n \<and> n \<le> 122) \<or> (224 \<le> n \<and> n \<le> 254 \<and> n \<noteq> 247) then char_of (n - 32) else c)"

text \<open>\<open>/^p/i.test(s)\<close> for a pattern \<open>p\<close> of literal characters.\<close>

definition regex_ci_prefix :: "string \<Rightarrow> string \<Rightarrow> bool" where
  "regex_ci_prefix p s =
     (length p \<le> length s \<and> map js_upper_char (take (length p) s) = map js_upper_char p)"

text \<open>\<open>xs.join(sep)\<close> on strings.\<close>

fun js_join :: "string \<Rightarrow> string list \<Rightarrow> string" where
  "js_join sep [] = []"
| "js_join sep [x] = x"
| "js_join sep (x # y # ys) = x @ sep @ js_join sep (y # ys)"

text \<open>\<open>s.split(":")\<close>: the pieces between the separators (one piece for a string
  without separator, the empty string included).\<close>

fun js_split :: "char \<Rightarrow> string \<Rightarrow> string list" where
  "js_split sep [] = [[]]"
| "js_split sep (c # cs) =
     (if c = sep then [] # js_split sep cs
      else (case js_split sep cs of p # ps \<Rightarrow> (c # p) # ps | [] \<Rightarrow> [[c]]))"

text \<open>\<open>parts[i]\<close>: \<open>undefined\<close> out of range.\<close>

definition js_index :: "'a list \<Rightarrow> int \<Rightarrow> 'a option" where
  "js_index xs i = (if 0 \<le> i \<and> i < int (length xs) then Some (xs ! nat i) else None)"


text \<open>
  A value as \<open>JSON.parse\<close> returns it, with \<open>undefined\<close> for what a property read
  gives when the property is absent. An object is the list of its own properties in
  enumeration order; its keys are distinct.
\<close>

datatype jsval =
    JUndefined
  | JNull
  | JBool bool
  | JNum rat
  | JStr string
  | JArr "jsval list"
  | JObj "(string \<times> jsval) list"

text \<open>\<open>v.k\<close> and \<open>v?.k\<close> for a value that is not \<open>null\<close> or \<open>undefined\<close> (or is read
  with \<open>?.\<close>): own properties of objects; primitives and arrays have none of the names
  read here.\<close>

fun js_get :: "jsval \<Rightarrow> string \<Rightarrow> jsval" where
  "js_get (JObj kvs) k = (case map_of kvs k of Some v \<Rightarrow> v | None \<Rightarrow> JUndefined)"
| "js_get v k = JUndefined"

text \<open>\<open>k in v\<close> for a non-null value of type object.\<close>

fun js_in :: "string \<Rightarrow> jsval \<Rightarrow> bool" where
  "js_in k (JObj kvs) = (k \<in> fst ` set kvs)"
| "js_in k v = False"

fun js_truthy :: "jsval \<Rightarrow> bool" where
  "js_truthy JUndefined = False"
| "js_truthy JNull = False"
| "js_truthy (JBool b) = b"
| "js_truthy (JNum n) = (n \<noteq> 0)"
| "js_truthy (JStr s) = (s \<noteq> [])"
| "js_truthy (JArr xs) = True"
| "js_truthy (JObj kvs) = True"

text \<open>\<open>typeof v === "object"\<close> (true of \<open>null\<close> and of arrays) and
  \<open>typeof v === "string"\<close>.\<close>

fun typeof_object :: "jsval \<Rightarrow> bool" where
  "typeof_object JNull = True"
| "typeof_object (JArr xs) = True"
| "typeof_object (JObj kvs) = True"
| "typeof_object v = False"

fun typeof_string :: "jsval \<Rightarrow> bool" where
  "typeof_string (JStr s) = True"
| "typeof_string v = False"

fun isArray :: "jsval \<Rightarrow> bool" where
  "isArray (JArr xs) = True"
| "isArray v = False"

text \<open>\<open>a ?? b\<close> on values.\<close>

fun nullish_or :: "jsval \<Rightarrow> jsval \<Rightarrow> jsval" where
  "nullish_or JUndefined d = d"
| "nullish_or JNull d = d"
| "nullish_or v d = v"

text \<open>
  The built-ins whose results the sources use but do not compute: \<open>JSON.parse\<close>
  (\<open>None\<close> when it throws), \<open>JSON.stringify\<close>, the printing of a number,
  \<open>new Date(s).getTime()\<close> (\<open>None\<close> for \<open>NaN\<close>) and \<open>new Date(ms).toISOString()\<close>.
\<close>

record runtime =
  JSON_parse :: "string \<Rightarrow> jsval option"
  JSON_stringify :: "jsval \<Rightarrow> string"
  Number_toString :: "rat \<Rightarrow> string"
  Date_getTime :: "string \<Rightarrow> int option"
  Date_toISOString :: "int \<Rightarrow> string"

text \<open>\<open>String(v)\<close>.\<close>

fun js_String :: "runtime \<Rightarrow> jsval \<Rightarrow> string" where
  "js_String rt JUndefined = ''undefined''"
| "js_String rt JNull = ''null''"
| "js_String rt (JBool b) = (if b then ''true'' else ''false'')"
| "js_String rt (JNum n) = Number_toString rt n"
| "js_String rt (JStr s) = s"
| "js_String rt (JArr xs) =
     js_join '','' (map (\<lambda>x. if x = JUndefined \<or> x = JNull then [] else js_String rt x) xs)"
| "js_String rt (JObj kvs) = ''[object Object]''"

section \<open>Configuration and payload types (types/config.ts, types/alert.ts)\<close>

text \<open>\<open>interface AlertTypeConfig\<close>: \<open>channelId\<close> is required, the other properties are
  optional. \<open>AlertsConfig = Record<string, AlertTypeConfig>\<close>; \<open>config[name]\<close> is
  \<open>undefined\<close> for a name without entry.\<close>

record AlertTypeConfig =
  cfg_channelId :: string
  cfg_suppressWindowMs :: "rat option"
  cfg_importantLabels :: "string list option"
  cfg_hiddenLabels :: "string list option"
  cfg_thumbnailUrl :: "string option"
  cfg_mentions :: "string list option"

type_synonym AlertsConfig = "string \<Rightarrow> AlertTypeConfig option"

text \<open>\<open>type AlertState = "firing" | "acknowledged" | "resolved"\<close>; the payload's
  \<open>status\<close> ranges over the same three words.\<close>

datatype AlertState = Firing | Acknowledged | Resolved

text \<open>\<open>type AlertApiPayload\<close> (the canonical alert).\<close>

record AlertApiPayload =
  p_alertId :: string
  p_resource :: "string option"
  p_title :: string
  p_description :: "string option"
  p_status :: AlertState
  p_severity :: "string option"
  p_fields :: "(string \<times> string) list option"
  p_startedAt :: string
  p_resolvedAt :: "string option"
  p_generatorURL :: "string option"
  p_channelId :: string
  p_ruleName :: "string option"
  p_thumbnailUrl :: "string option"
  p_source :: "string option"

text \<open>\<open>interface StoredAlert\<close> (the incident record).\<close>

record StoredAlert =
  sa_messageId :: string
  sa_channelId :: string
  sa_threadId :: "string option"
  sa_state :: AlertState
  sa_updatedAt :: string
  sa_ruleName :: "string option"
  sa_acknowledgedBy :: "string option"
  sa_resolvedBy :: "string option"
  sa_severity :: "string option"
  sa_mentionLevel :: "int option"
  sa_resolvedAt :: "string option"
  sa_acknowledgedAt :: "string option"

text \<open>\<open>a ?? b\<close> on an optional property.\<close>

definition or_else :: "'a option \<Rightarrow> 'a \<Rightarrow> 'a" where
  "or_else a d = (case a of None \<Rightarrow> d | Some x \<Rightarrow> x)"

definition or_else_opt :: "'a option \<Rightarrow> 'a option \<Rightarrow> 'a option" where
  "or_else_opt a b = (case a of None \<Rightarrow> b | Some x \<Rightarrow> Some x)"

section \<open>Embed fields of the interactive transitions (discord/embed.ts)\<close>

text \<open>\<open>type EmbedField = { name: string; value: string; inline?: boolean | null }\<close>\<close>

datatype inline_flag = InlineUndefined | InlineNull | InlineBool bool

record EmbedField =
  ef_name :: string
  ef_value :: string
  ef_inline :: inline_flag

text \<open>\<open>type ResolvedField = { name: string; value: string; inline: boolean }\<close>\<close>

record ResolvedField =
  rf_name :: string
  rf_value :: string
  rf_inline :: bool

text \<open>\<open>f.inline ?? true\<close>: the right operand is taken for \<open>undefined\<close> and \<open>null\<close> only.\<close>

fun inline_or :: "inline_flag \<Rightarrow> bool \<Rightarrow> bool" where
  "inline_or (InlineBool b) d = b"
| "inline_or InlineUndefined d = d"
| "inline_or InlineNull d = d"

text \<open>A \<open>ResolvedField\<close> read as an \<open>EmbedField\<close> (structural subtyping).\<close>

definition asEmbedField :: "ResolvedField \<Rightarrow> EmbedField" where
  "asEmbedField f =
     \<lparr>ef_name = rf_name f, ef_value = rf_value f, ef_inline = InlineBool (rf_inline f)\<rparr>"

text \<open>The mapping \<open>(f) => ({ name: f.name, value: f.value, inline: f.inline ?? true })\<close>.\<close>

definition carryField :: "EmbedField \<Rightarrow> ResolvedField" where
  "carryField f =
     \<lparr>rf_name = ef_name f, rf_value = ef_value f, rf_inline = inline_or (ef_inline f) True\<rparr>"

text \<open>The template \<open><@${userId}>\<close>.\<close>

definition mention :: "string \<Rightarrow> string" where
  "mention userId = ''<@'' @ userId @ ''>''"

definition buildResolvedFields ::
  "EmbedField list \<Rightarrow> string \<Rightarrow> string \<Rightarrow> ResolvedField list" where
  "buildResolvedFields existingFields userId resolvedAt =
     (let filtered = filter (\<lambda>f. ef_name f \<noteq> ''Status'' \<and> ef_name f \<noteq> ''Resolved by''
                                    \<and> ef_name f \<noteq> ''Resolved at'') existingFields
      in map carryField filtered @
         [\<lparr>rf_name = ''Status'', rf_value = ''resolved'', rf_inline = True\<rparr>,
          \<lparr>rf_name = ''Resolved by'', rf_value = mention userId, rf_inline = True\<rparr>,
          \<lparr>rf_name = ''Resolved at'',
            rf_value = replace_first CHR ''T'' '' '' (js_slice0 19 resolvedAt),
            rf_inline = True\<rparr>])"

definition buildAcknowledgedFields :: "EmbedField list \<Rightarrow> string \<Rightarrow> ResolvedField list" where
  "buildAcknowledgedFields existingFields userId =
     (let filtered = filter (\<lambda>f. ef_name f \<noteq> ''Status'' \<and> ef_name f \<noteq> ''Acknowledged by'')
                        existingFields
      in map carryField filtered @
         [\<lparr>rf_name = ''Status'', rf_value = ''acknowledged'', rf_inline = True\<rparr>,
          \<lparr>rf_name = ''Acknowledged by'', rf_value = mention userId, rf_inline = True\<rparr>])"

text \<open>How often a field name occurs in a rendered field list.\<close>

definition count_name :: "string \<Rightarrow> ResolvedField list \<Rightarrow> nat" where
  "count_name n fs = length (filter (\<lambda>f. rf_name f = n) fs)"

text \<open>The fields that the two builders keep, and the fields they append.\<close>

definition resolved_kept :: "EmbedField \<Rightarrow> bool" where
  "resolved_kept f = (ef_name f \<noteq> ''Status'' \<and> ef_name f \<noteq> ''Resolved by'' \<and> ef_name f \<noteq> ''Resolved at'')"

definition resolved_tail :: "string \<Rightarrow> string \<Rightarrow> ResolvedField list" where
  "resolved_tail u t =
     [\<lparr>rf_name = ''Status'', rf_value = ''resolved'', rf_inline = True\<rparr>,
      \<lparr>rf_name = ''Resolved by'', rf_value = ''<@'' @ u @ ''>'', rf_inline = True\<rparr>,
      \<lparr>rf_name = ''Resolved at'', rf_value = replace_first CHR ''T'' '' '' (take 19 t), rf_inline = True\<rparr>]"

definition acknowledged_kept :: "EmbedField \<Rightarrow> bool" where
  "acknowledged_kept f = (ef_name f \<noteq> ''Status'' \<and> ef_name f \<noteq> ''Acknowledged by'')"

definition acknowledged_tail :: "string \<Rightarrow> ResolvedField list" where
  "acknowledged_tail u =
     [\<lparr>rf_name = ''Status'', rf_value = ''acknowledged'', rf_inline = True\<rparr>,
      \<lparr>rf_name = ''Acknowledged by'', rf_value = ''<@'' @ u @ ''>'', rf_inline = True\<rparr>]"

section \<open>The webhook normalizer (services/processor.ts, types/grafana.ts)\<close>

text \<open>One item of the webhook's \<open>alerts\<close> array (\<open>SingleAlert\<close>); the schema defaults
  \<open>labels\<close> and \<open>annotations\<close> to the empty record. A \<open>Record<string, string>\<close> is the
  list of its entries in enumeration order.\<close>

record SingleAlert =
  a_status :: "string option"
  a_labels :: "(string \<times> string) list"
  a_annotations :: "(string \<times> string) list"
  a_startsAt :: "string option"
  a_endsAt :: "string option"
  a_generatorURL :: "string option"
  a_fingerprint :: "string option"

text \<open>\<open>interface NormalizedAlert\<close>\<close>

record NormalizedAlert =
  na_id :: string
  na_fingerprint :: string
  na_status :: string
  na_labels :: "(string \<times> string) list"
  na_annotations :: "(string \<times> string) list"
  na_startsAt :: string
  na_endsAt :: string
  na_generatorURL :: "string option"
  na_groupLabels :: "(string \<times> string) list"
  na_commonLabels :: "(string \<times> string) list"
  na_commonAnnotations :: "(string \<times> string) list"

text \<open>\<open>normalizeOne\<close>; \<open>now\<close> is \<open>Date.now()\<close> and \<open>rnd\<close> is \<open>Math.random()\<close>.\<close>

definition normalizeOne ::
  "runtime \<Rightarrow> int \<Rightarrow> rat \<Rightarrow> SingleAlert \<Rightarrow> (string \<times> string) list \<Rightarrow> (string \<times> string) list
     \<Rightarrow> (string \<times> string) list \<Rightarrow> NormalizedAlert" where
  "normalizeOne rt now rnd a groupLabels commonLabels commonAnnotations =
     (let fingerprint =
            (case a_fingerprint a of
               Some f \<Rightarrow> f
             | None \<Rightarrow> or_else (map_of (a_labels a) ''alertname'') ''unknown'' @ ''-''
                        @ Number_toString rt (of_int now) @ ''-'' @ Number_toString rt rnd)
      in \<lparr>na_id = fingerprint,
          na_fingerprint = fingerprint,
          na_status = or_else (a_status a) ''firing'',
          na_labels = a_labels a,
          na_annotations = a_annotations a,
          na_startsAt = or_else (a_startsAt a) (Date_toISOString rt now),
          na_endsAt = or_else (a_endsAt a) [],
          na_generatorURL = a_generatorURL a,
          na_groupLabels = groupLabels,
          na_commonLabels = commonLabels,
          na_commonAnnotations = commonAnnotations\<rparr>)"

definition getAlertTypeKey :: "NormalizedAlert \<Rightarrow> string" where
  "getAlertTypeKey alert =
     or_else (or_else_opt (map_of (na_labels alert) ''alertname'')
                          (map_of (na_labels alert) ''alert_type'')) ''default''"

text \<open>\<open>BROKEN_TEMPLATE = /%![\w]*\(<nil>\)/g\<close>. \<open>match_broken s\<close> is the rest of \<open>s\<close>
  after a match that starts at its first character; the greedy \<open>[\w]*\<close> never has to
  give characters back, because the next character of the pattern is not a word
  character.\<close>

definition word_char :: "char \<Rightarrow> bool" where
  "word_char c =
     (let n = (of_char c :: nat)
      in (65 \<le> n \<and> n \<le> 90) \<or> (97 \<le> n \<and> n \<le> 122) \<or> (48 \<le> n \<and> n \<le> 57) \<or> c = CHR ''_'')"

definition match_broken :: "string \<Rightarrow> string option" where
  "match_broken s =
     (if take 2 s = ''%!''
      then (let r = dropWhile word_char (drop 2 s)
            in if take 7 r = ''(<nil>)'' then Some (drop 7 r) else None)
      else None)"

lemma match_broken_shorter: "match_broken s = Some r \<Longrightarrow> length r < length s"
proof -
  assume m: "match_broken s = Some r"
  then have r: "r = drop 7 (dropWhile word_char (drop 2 s))" and p: "take 2 s = ''%!''"
    by (auto simp: match_broken_def Let_def split: if_splits)
  from p have "length s \<ge> 2"
    by (cases s; cases "tl s") auto
  moreover have "length (dropWhile word_char (drop 2 s)) \<le> length s - 2"
    using length_dropWhile_le [of word_char "drop 2 s"] by simp
  ultimately show ?thesis
    unfolding r by simp
qed

function replace_broken :: "string \<Rightarrow> string" where
  "replace_broken [] = []"
| "replace_broken (c # cs) =
     (case match_broken (c # cs) of
        Some r \<Rightarrow> ''N/A'' @ replace_broken r
      | None \<Rightarrow> c # replace_broken cs)"
  by pat_completeness auto
termination
  by (relation "measure length") (auto dest: match_broken_shorter)

definition sanitize :: "string \<Rightarrow> string" where
  "sanitize s = js_trim (replace_broken s)"

definition isMeaningfulEndsAt :: "string \<Rightarrow> bool" where
  "isMeaningfulEndsAt endsAt =
     (if \<not> truthy_str (js_trim endsAt) then False
      else if regex_ci_prefix ''0001-01-01T00:00:00'' (js_trim endsAt) then False
      else True)"

text \<open>The separator of the "Key info" parts is the three-character string space,
  U+2022, space; the bullet is written here by its three UTF-8 bytes.\<close>

definition key_info_sep :: string where
  "key_info_sep = [CHR 0x20, CHR 0xE2, CHR 0x80, CHR 0xA2, CHR 0x20]"

definition normalizedToApiPayload :: "NormalizedAlert \<Rightarrow> AlertTypeConfig \<Rightarrow> AlertApiPayload" where
  "normalizedToApiPayload alert config =
     (let status = (if na_status alert = ''resolved'' then Resolved else Firing);
          severity = toLowerCase (or_else (map_of (na_labels alert) ''severity'') ''warning'');
          validSeverity = (if severity = ''critical'' \<or> severity = ''high'' \<or> severity = ''info''
                           then severity else ''warning'');
          hidden = set (or_else (cfg_hiddenLabels config) []);
          importantKeys = or_else (cfg_importantLabels config) [];
          parts = map (\<lambda>k. k @ '': '' @ or_else (map_of (na_labels alert) k) [])
                    (filter (\<lambda>k. map_of (na_labels alert) k \<noteq> None
                                 \<and> map_of (na_labels alert) k \<noteq> Some []) importantKeys);
          fields0 = (if length importantKeys > 0 \<and> length parts > 0
                     then [(''Key info'', js_join key_info_sep parts)] else []);
          fields1 = fields0 @ filter (\<lambda>(k, v). k \<notin> hidden) (na_labels alert);
          fields = fields1 @ map (\<lambda>(k, v). (k, sanitize v)) (na_annotations alert);
          resource = or_else_opt (map_of (na_labels alert) ''instance'')
                       (or_else_opt (map_of (na_labels alert) ''DBInstanceIdentifier'')
                                    (map_of (na_labels alert) ''resource''));
          summary = or_else (map_of (na_annotations alert) ''summary'') [];
          description = or_else (map_of (na_annotations alert) ''description'') [];
          descriptionText = (if truthy_str (sanitize summary) then sanitize summary
                             else if truthy_str (sanitize description) then sanitize description
                             else ''No description'');
          ruleName = or_else (map_of (na_labels alert) ''alertname'') ''default''
      in \<lparr>p_alertId = na_fingerprint alert,
          p_resource = resource,
          p_title = ''Alert: '' @ ruleName,
          p_description = Some descriptionText,
          p_status = status,
          p_severity = Some validSeverity,
          p_fields = Some fields,
          p_startedAt = na_startsAt alert,
          p_resolvedAt = (if isMeaningfulEndsAt (na_endsAt alert) then Some (na_endsAt alert) else None),
          p_generatorURL = na_generatorURL alert,
          p_channelId = cfg_channelId config,
          p_ruleName = Some ruleName,
          p_thumbnailUrl = cfg_thumbnailUrl config,
          p_source = Some ''grafana''\<rparr>)"

text \<open>A timestamp whose year is 0001, as an ISO 8601 string \<open>YYYY-MM-DD...\<close> states it.\<close>

definition year_is_0001 :: "string \<Rightarrow> bool" where
  "year_is_0001 ts = (take 5 (js_trim ts) = ''0001-'')"

text \<open>A string that starts with the zero timestamp \<open>0001-01-01T00:00:00\<close>, the \<open>T\<close> in
  either case.\<close>

definition zero_sentinel :: "string \<Rightarrow> bool" where
  "zero_sentinel s =
     (19 \<le> length s
      \<and> list_all2 (\<lambda>x c. x = c \<or> (c = CHR ''T'' \<and> x = CHR ''t'')) (take 19 s) ''0001-01-01T00:00:00'')"

section \<open>The queued-envelope normalizer (services/sns-processor.ts, types/sns.ts)\<close>

record MessageAttributeValue =
  mav_Type :: string
  mav_Value :: string

text \<open>\<open>type SnsNotificationEnvelope\<close>; its \<open>Type\<close> is the literal \<open>"Notification"\<close>.\<close>

record SnsNotificationEnvelope =
  MessageId :: string
  TopicArn :: "string option"
  Subject :: "string option"
  Message :: string
  Timestamp :: "string option"
  MessageAttributes :: "(string \<times> MessageAttributeValue) list option"
  UnsubscribeURL :: "string option"
  SigningCertURL :: "string option"
  Signature :: "string option"

definition DEFAULT_EVENT_NAME :: string where
  "DEFAULT_EVENT_NAME = ''sns''"

definition MAX_DESCRIPTION_LEN :: nat where
  "MAX_DESCRIPTION_LEN = 1500"

definition VALID_SEVERITIES :: "string list" where
  "VALID_SEVERITIES = [''critical'', ''high'', ''warning'', ''info'']"

definition normalizeEventName :: "string option \<Rightarrow> string" where
  "normalizeEventName so =
     (case so of
        None \<Rightarrow> DEFAULT_EVENT_NAME
      | Some s \<Rightarrow> if \<not> truthy_str (js_trim s) then DEFAULT_EVENT_NAME
                  else replace_ws_runs (js_trim s))"

text \<open>\<open>attrs?.name?.Value\<close>\<close>

definition attr_Value :: "(string \<times> MessageAttributeValue) list option \<Rightarrow> string \<Rightarrow> string option" where
  "attr_Value attrs n =
     (case attrs of None \<Rightarrow> None | Some kvs \<Rightarrow> map_option mav_Value (map_of kvs n))"

text \<open>\<open>typeof o[k] === "string" && o[k]\<close>: the property is a non-empty string.\<close>

definition nonempty_string_prop :: "jsval \<Rightarrow> string \<Rightarrow> string option" where
  "nonempty_string_prop o' k =
     (case js_get o' k of JStr s \<Rightarrow> if truthy_str s then Some s else None | _ \<Rightarrow> None)"

definition deriveEventName :: "runtime \<Rightarrow> SnsNotificationEnvelope \<Rightarrow> string" where
  "deriveEventName rt envelope =
     (if truthy_trim (Subject envelope) then normalizeEventName (Subject envelope)
      else let attrs = MessageAttributes envelope in
        if truthy_trim (attr_Value attrs ''event_type'')
          then normalizeEventName (attr_Value attrs ''event_type'')
        else if truthy_trim (attr_Value attrs ''rule_name'')
          then normalizeEventName (attr_Value attrs ''rule_name'')
        else (case JSON_parse rt (Message envelope) of
                None \<Rightarrow> DEFAULT_EVENT_NAME
              | Some msg \<Rightarrow>
                  if js_truthy msg \<and> typeof_object msg then
                    (case nonempty_string_prop msg ''detail-type'' of
                       Some s \<Rightarrow> normalizeEventName (Some s)
                     | None \<Rightarrow>
                    (case nonempty_string_prop msg ''source'' of
                       Some s \<Rightarrow> normalizeEventName (Some s)
                     | None \<Rightarrow>
                    (case nonempty_string_prop msg ''eventName'' of
                       Some s \<Rightarrow> normalizeEventName (Some s)
                     | None \<Rightarrow> DEFAULT_EVENT_NAME)))
                  else DEFAULT_EVENT_NAME))"

definition parseSeverity :: "runtime \<Rightarrow> SnsNotificationEnvelope \<Rightarrow> string" where
  "parseSeverity rt envelope =
     (let attrs = MessageAttributes envelope;
          fromAttr = or_else_opt (map_option toLowerCase (attr_Value attrs ''severity''))
                                 (map_option toLowerCase (attr_Value attrs ''Severity''))
      in if (case fromAttr of None \<Rightarrow> False | Some f \<Rightarrow> truthy_str f \<and> f \<in> set VALID_SEVERITIES)
         then the fromAttr
         else (case JSON_parse rt (Message envelope) of
                 None \<Rightarrow> ''warning''
               | Some msg \<Rightarrow>
                   if js_truthy msg \<and> typeof_object msg then
                     (let s = toLowerCase (js_String rt
                                (nullish_or (js_get msg ''severity'')
                                   (nullish_or (js_get msg ''Severity'') (JStr []))))
                      in if s \<in> set VALID_SEVERITIES then s else ''warning'')
                   else ''warning''))"

text \<open>
  \<open>parseResource\<close>. The source asserts \<open>resources[0]\<close> to be \<open>{ ARN?: string }\<close>. For a
  truthy \<open>ARN\<close> that is not a string, the caller's \<open>resource.slice(0, 64)\<close> throws a
  TypeError (numbers, booleans, objects) or slices an array; the model stops there with
  \<open>ArnNotAString\<close>.
\<close>

datatype sns_failure = ArnNotAString

definition parseResource :: "runtime \<Rightarrow> SnsNotificationEnvelope \<Rightarrow> sns_failure + string option" where
  "parseResource rt envelope =
     (case JSON_parse rt (Message envelope) of
        None \<Rightarrow> Inr None
      | Some msg \<Rightarrow>
          if js_truthy msg \<and> typeof_object msg then
            (case js_get msg ''AlarmName'' of
               JStr s \<Rightarrow> Inr (Some s)
             | _ \<Rightarrow>
               (let detail = js_get msg ''detail'' in
                case (if js_truthy detail then js_get detail ''resource'' else JUndefined) of
                  JStr s \<Rightarrow> Inr (Some s)
                | _ \<Rightarrow>
                  (case js_get detail ''resources'' of
                     JArr (first # rest) \<Rightarrow>
                       (let arn = js_get first ''ARN''
                        in if js_truthy arn
                           then (case arn of JStr s \<Rightarrow> Inr (Some s) | _ \<Rightarrow> Inl ArnNotAString)
                           else Inr None)
                   | _ \<Rightarrow> Inr None)))
          else Inr None)"

definition parseResolvedState :: "runtime \<Rightarrow> SnsNotificationEnvelope \<Rightarrow> AlertState \<times> string option" where
  "parseResolvedState rt envelope =
     (case JSON_parse rt (Message envelope) of
        None \<Rightarrow> (Firing, None)
      | Some msg \<Rightarrow>
          if js_truthy msg \<and> typeof_object msg then
            (if js_get msg ''NewStateValue'' = JStr ''OK'' then (Resolved, Timestamp envelope)
             else let detail = js_get msg ''detail'' in
               if js_truthy detail \<and> js_get (js_get detail ''state'') ''value'' = JStr ''OK''
               then (Resolved, Timestamp envelope)
               else (Firing, None))
          else (Firing, None))"

text \<open>Decimal digits of an array index, for \<open>Object.entries\<close> of an array.\<close>

function show_nat :: "nat \<Rightarrow> string" where
  "show_nat n = (if n < 10 then [char_of (48 + n)] else show_nat (n div 10) @ [char_of (48 + n mod 10)])"
  by pat_completeness auto
termination
  by (relation "measure id") auto

fun js_entries :: "jsval \<Rightarrow> (string \<times> jsval) list" where
  "js_entries (JObj kvs) = kvs"
| "js_entries (JArr xs) = zip (map show_nat [0..<length xs]) xs"
| "js_entries v = []"

definition buildFieldsFromMessage :: "runtime \<Rightarrow> string \<Rightarrow> (string \<times> string) list" where
  "buildFieldsFromMessage rt message =
     (let fields =
        (case JSON_parse rt message of
           None \<Rightarrow> []
         | Some msg \<Rightarrow>
             if js_truthy msg \<and> typeof_object msg then
               map (\<lambda>(k, v). (k, if typeof_object v then js_slice0 500 (JSON_stringify rt v)
                                  else js_slice0 500 (js_String rt v)))
                 (filter (\<lambda>(k, v). v \<noteq> JUndefined \<and> v \<noteq> JNull) (js_entries msg))
             else [])
      in take 20 fields)"

text \<open>\<open>snsEnvelopeToAlertPayload\<close>: \<open>Inr None\<close> is the \<open>null\<close> result; \<open>now\<close> is the time
  of \<open>new Date()\<close>.\<close>

definition snsEnvelopeToAlertPayload ::
  "runtime \<Rightarrow> AlertsConfig \<Rightarrow> int \<Rightarrow> SnsNotificationEnvelope \<Rightarrow> sns_failure + AlertApiPayload option" where
  "snsEnvelopeToAlertPayload rt getAlertsConfig now envelope =
     (let eventName = deriveEventName rt envelope in
      case getAlertsConfig eventName of
        None \<Rightarrow> Inr None
      | Some config \<Rightarrow>
          if \<not> truthy_str (cfg_channelId config) then Inr None
          else
            (let description = js_slice0 MAX_DESCRIPTION_LEN (Message envelope) in
             case parseResource rt envelope of
               Inl e \<Rightarrow> Inl e
             | Inr resource \<Rightarrow>
                 (let severity = parseSeverity rt envelope;
                      startedAt = or_else (Timestamp envelope) (Date_toISOString rt now);
                      fields = buildFieldsFromMessage rt (Message envelope);
                      alertId = MessageId envelope @
                        (case resource of
                           None \<Rightarrow> []
                         | Some r \<Rightarrow> if truthy_str r then '':'' @ js_slice0 64 r else []);
                      (status, resolvedAt) = parseResolvedState rt envelope
                  in Inr (Some
                      \<lparr>p_alertId = alertId,
                       p_resource = resource,
                       p_title = (if truthy_trim (Subject envelope)
                                  then ''Alert: '' @ js_trim (the (Subject envelope))
                                  else ''Alert: '' @ eventName),
                       p_description = Some (if truthy_str description then description
                                             else ''No description''),
                       p_status = status,
                       p_severity = Some severity,
                       p_fields = (if length fields > 0 then Some fields else None),
                       p_startedAt = startedAt,
                       p_resolvedAt = resolvedAt,
                       p_generatorURL = None,
                       p_channelId = cfg_channelId config,
                       p_ruleName = Some eventName,
                       p_thumbnailUrl = cfg_thumbnailUrl config,
                       p_source = Some ''sns''\<rparr>))))"

text \<open>The claim's reading of the event name, in its own words: the first non-empty
  candidate in the stated order, every run of whitespace replaced by an underscore,
  and \<open>"sns"\<close> when there is none.\<close>

definition string_prop :: "jsval option \<Rightarrow> string \<Rightarrow> string option" where
  "string_prop msg k =
     (case msg of Some m \<Rightarrow> (case js_get m k of JStr s \<Rightarrow> Some s | _ \<Rightarrow> None) | None \<Rightarrow> None)"

definition eventNameCandidates :: "runtime \<Rightarrow> SnsNotificationEnvelope \<Rightarrow> string option list" where
  "eventNameCandidates rt envelope =
     (let msg = JSON_parse rt (Message envelope) in
      [Subject envelope,
       attr_Value (MessageAttributes envelope) ''event_type'',
       attr_Value (MessageAttributes envelope) ''rule_name'',
       string_prop msg ''detail-type'',
       string_prop msg ''source'',
       string_prop msg ''eventName''])"

fun first_such :: "(string \<Rightarrow> bool) \<Rightarrow> string option list \<Rightarrow> string option" where
  "first_such P [] = None"
| "first_such P (None # cs) = first_such P cs"
| "first_such P (Some s # cs) = (if P s then Some s else first_such P cs)"

definition claimed_deriveEventName :: "runtime \<Rightarrow> SnsNotificationEnvelope \<Rightarrow> string" where
  "claimed_deriveEventName rt envelope =
     (case first_such (\<lambda>s. s \<noteq> []) (eventNameCandidates rt envelope) of
        Some s \<Rightarrow> replace_ws_runs s
      | None \<Rightarrow> ''sns'')"

text \<open>A string that is not blank: something is left after trimming.\<close>

definition nonblank :: "string \<Rightarrow> bool" where
  "nonblank s = (js_trim s \<noteq> [])"

text \<open>A string property that is absent, empty or not blank.\<close>

definition empty_or_nonblank :: "string option \<Rightarrow> bool" where
  "empty_or_nonblank so = (case so of None \<Rightarrow> True | Some s \<Rightarrow> s = [] \<or> nonblank s)"

text \<open>The \<open>alertId\<close> of the payload that a normalizer produced, if it produced one.\<close>

definition produced_alertId :: "sns_failure + AlertApiPayload option \<Rightarrow> string option" where
  "produced_alertId res = (case res of Inr (Some p) \<Rightarrow> Some (p_alertId p) | _ \<Rightarrow> None)"

section \<open>Validation of a pushed configuration (services/config.ts)\<close>

definition isAlertTypeConfig :: "jsval \<Rightarrow> bool" where
  "isAlertTypeConfig v =
     (v \<noteq> JNull \<and> typeof_object v \<and> js_in ''channelId'' v
      \<and> typeof_string (js_get v ''channelId''))"

text \<open>The object literal that \<open>validateAlertsConfig\<close> stores for an entry: six
  properties, \<open>undefined\<close> where the entry has none.\<close>

definition validated_entry :: "jsval \<Rightarrow> jsval" where
  "validated_entry v =
     JObj [(''channelId'', js_get v ''channelId''),
           (''suppressWindowMs'', js_get v ''suppressWindowMs''),
           (''importantLabels'', js_get v ''importantLabels''),
           (''hiddenLabels'', js_get v ''hiddenLabels''),
           (''thumbnailUrl'', js_get v ''thumbnailUrl''),
           (''mentions'', (case js_get v ''mentions'' of
                             JArr ms \<Rightarrow> JArr (filter typeof_string ms)
                           | _ \<Rightarrow> JUndefined))]"

text \<open>\<open>out[key] = value\<close> on an object created by \<open>{}\<close>: the key \<open>__proto__\<close> reaches
  the setter of \<open>Object.prototype\<close> and adds no own property; any other key is added
  at the end, or replaced in place.\<close>

definition obj_assign :: "(string \<times> jsval) list \<Rightarrow> string \<Rightarrow> jsval \<Rightarrow> (string \<times> jsval) list" where
  "obj_assign out k v = (if k = ''__proto__'' then out else AList.update k v out)"

definition entry_error :: "string \<Rightarrow> string" where
  "entry_error k = ''Entry '' @ [CHR 0x22] @ k @ [CHR 0x22] @ '' must be an object with channelId (string)''"

text \<open>The loop over \<open>Object.entries(data)\<close>, with the object \<open>out\<close> built so far.\<close>

fun validate_entries ::
  "(string \<times> jsval) list \<Rightarrow> (string \<times> jsval) list \<Rightarrow> string + (string \<times> jsval) list" where
  "validate_entries out [] = Inr out"
| "validate_entries out ((k, v) # rest) =
     (if \<not> isAlertTypeConfig v then Inl (entry_error k)
      else validate_entries (obj_assign out k (validated_entry v)) rest)"

text \<open>\<open>validateAlertsConfig\<close>: \<open>Inl error\<close> is \<open>{ ok: false, error }\<close> and \<open>Inr out\<close> is
  \<open>{ ok: true, config: out }\<close>, the configuration as the list of its entries.\<close>

definition validateAlertsConfig :: "jsval \<Rightarrow> string + (string \<times> jsval) list" where
  "validateAlertsConfig data =
     (if data = JNull \<or> \<not> typeof_object data \<or> isArray data
      then Inl ''Config must be a JSON object''
      else validate_entries [] (js_entries data))"

text \<open>What the claim says of the entry \<open>e\<close> returned for an accepted entry \<open>v\<close>: the
  channel and the four optional properties are those of \<open>v\<close>, and \<open>mentions\<close> is the
  array of the string elements of \<open>v\<close>'s, or \<open>undefined\<close> when \<open>v\<close> has no array there.\<close>

definition entry_passed_through :: "jsval \<Rightarrow> jsval \<Rightarrow> bool" where
  "entry_passed_through e v =
     (js_get e ''channelId'' = js_get v ''channelId''
      \<and> js_get e ''suppressWindowMs'' = js_get v ''suppressWindowMs''
      \<and> js_get e ''importantLabels'' = js_get v ''importantLabels''
      \<and> js_get e ''hiddenLabels'' = js_get v ''hiddenLabels''
      \<and> js_get e ''thumbnailUrl'' = js_get v ''thumbnailUrl''
      \<and> js_get e ''mentions'' = (case js_get v ''mentions'' of
                                    JArr ms \<Rightarrow> JArr (filter typeof_string ms)
                                  | _ \<Rightarrow> JUndefined))"

text \<open>The entries that validation returns for an object with distinct keys, and the
  shape of every configuration it returns.\<close>

definition kept_entries :: "(string \<times> jsval) list \<Rightarrow> (string \<times> jsval) list" where
  "kept_entries kvs = map (\<lambda>(k, v). (k, validated_entry v)) (filter (\<lambda>(k, v). k \<noteq> ''__proto__'') kvs)"

definition well_formed :: "(string \<times> jsval) list \<Rightarrow> bool" where
  "well_formed al =
     (distinct (map fst al) \<and> ''__proto__'' \<notin> fst ` set al
      \<and> (\<forall>(k, e) \<in> set al. \<exists>v. isAlertTypeConfig v \<and> e = validated_entry v))"

section \<open>The key-value store (store/redis.ts, store/dedup.ts)\<close>

text \<open>
  A Redis key holds a string and the time to live, in seconds, of the \<open>SETEX\<close> that
  wrote it. The string is either a marker or the JSON text of an incident record;
  \<open>JSON.parse (JSON.stringify data)\<close> gives the record back, so the record stands for
  its text.
\<close>

datatype redis_value = RString string | RAlert StoredAlert

type_synonym redis = "string \<Rightarrow> (redis_value \<times> int) option"

definition redis_get :: "redis \<Rightarrow> string \<Rightarrow> redis_value option" where
  "redis_get r k = map_option fst (r k)"

definition redis_setex :: "redis \<Rightarrow> string \<Rightarrow> int \<Rightarrow> redis_value \<Rightarrow> redis" where
  "redis_setex r k seconds v = r(k \<mapsto> (v, seconds))"

definition redis_del :: "redis \<Rightarrow> string \<Rightarrow> redis" where
  "redis_del r k = r(k := None)"

text \<open>What a run does, in order: the calls between modules, the counters incremented
  and the requests sent to the chat service.\<close>

datatype ButtonStyle = Primary | Secondary | Success

datatype button = Button string string ButtonStyle

datatype message_body =
    Content string
  | AlertMessage AlertApiPayload "button list list"
  | AlertRepeated "(string \<times> string) list"

record BuiltEmbed =
  be_title :: string
  be_color :: nat
  be_fields :: "ResolvedField list"
  be_description :: "string option"
  be_footer :: "string option"
  be_timestamp :: "int option option"

datatype event =
    Inc string
  | Call_isDuplicate string rat
  | Call_clearDedup string
  | Call_setDedupTtl string rat
  | Call_setStoredAlert string "string option" StoredAlert
  | Call_deleteStoredAlert string "string option"
  | Call_sendOrUpdateAlert AlertApiPayload
  | Call_insertAlertEvent AlertApiPayload string
  | Call_updateAlertEventAck string "string option" string
  | Message_edit string string message_body
  | Channel_send string message_body
  | Message_startThread string string
  | Interaction_reply string
  | Interaction_update "BuiltEmbed option" "button list list"

record world =
  w_redis :: redis
  w_trace :: "event list"

definition emit :: "event \<Rightarrow> world \<Rightarrow> world" where
  "emit e w = w\<lparr>w_trace := w_trace w @ [e]\<rparr>"

definition TTL_SEC :: int where
  "TTL_SEC = 60 * 60 * 24 * 7"

definition alertKey :: "string \<Rightarrow> string option \<Rightarrow> string" where
  "alertKey alertId resource = ''alert:'' @ alertId @ '':'' @ or_else resource ''default''"

text \<open>\<open>getStoredAlert\<close>: \<open>null\<close> for a missing key. A key of the incident store never
  holds a marker (the keys of the two stores start differently).\<close>

definition getStoredAlert :: "world \<Rightarrow> string \<Rightarrow> string option \<Rightarrow> StoredAlert option" where
  "getStoredAlert w alertId resource =
     (case redis_get (w_redis w) (alertKey alertId resource) of
        Some (RAlert a) \<Rightarrow> Some a
      | _ \<Rightarrow> None)"

definition setStoredAlert :: "world \<Rightarrow> string \<Rightarrow> string option \<Rightarrow> StoredAlert \<Rightarrow> world" where
  "setStoredAlert w alertId resource data =
     (emit (Call_setStoredAlert alertId resource data) w)
       \<lparr>w_redis := redis_setex (w_redis w) (alertKey alertId resource) TTL_SEC (RAlert data)\<rparr>"

definition deleteStoredAlert :: "world \<Rightarrow> string \<Rightarrow> string option \<Rightarrow> world" where
  "deleteStoredAlert w alertId resource =
     (emit (Call_deleteStoredAlert alertId resource) w)
       \<lparr>w_redis := redis_del (w_redis w) (alertKey alertId resource)\<rparr>"

definition DEDUP_KEY_PREFIX :: string where
  "DEDUP_KEY_PREFIX = ''dedup:''"

definition dedupKey :: "string \<Rightarrow> string" where
  "dedupKey fingerprint = DEDUP_KEY_PREFIX @ fingerprint"

text \<open>\<open>Math.max(1, Math.ceil(ttlMs / 1000))\<close>\<close>

definition ttlSec_of :: "rat \<Rightarrow> int" where
  "ttlSec_of ttlMs = max 1 \<lceil>ttlMs / 1000\<rceil>"

text \<open>\<open>isDuplicate\<close> on the store alone: the reply of \<open>GET\<close>, then \<open>SETEX\<close> when the reply
  was \<open>null\<close>.\<close>

definition isDuplicate_redis :: "redis \<Rightarrow> string \<Rightarrow> rat \<Rightarrow> bool \<times> redis" where
  "isDuplicate_redis r fingerprint ttlMs =
     (let key = dedupKey fingerprint;
          ttlSec = ttlSec_of ttlMs;
          exists = redis_get r key
      in if exists \<noteq> None then (True, r)
         else (False, redis_setex r key ttlSec (RString ''1'')))"

definition isDuplicate :: "world \<Rightarrow> string \<Rightarrow> rat \<Rightarrow> bool \<times> world" where
  "isDuplicate w fingerprint ttlMs =
     (let (dup, r) = isDuplicate_redis (w_redis w) fingerprint ttlMs
      in (dup, (emit (Call_isDuplicate fingerprint ttlMs) w)\<lparr>w_redis := r\<rparr>))"

definition clearDedup :: "world \<Rightarrow> string \<Rightarrow> world" where
  "clearDedup w fingerprint =
     (emit (Call_clearDedup fingerprint) w)
       \<lparr>w_redis := redis_del (w_redis w) (dedupKey fingerprint)\<rparr>"


text \<open>
  \<open>isDuplicate\<close> awaits the reply of \<open>GET\<close> before it sends \<open>SETEX\<close>, so other work on the
  same store can run between the two. A call in progress is at one of three points,
  and a step of it is one of its two requests.
\<close>

datatype isDuplicate_pc = BeforeGet | AfterGet "redis_value option" | Returned bool

fun isDuplicate_step :: "string \<Rightarrow> rat \<Rightarrow> isDuplicate_pc \<Rightarrow> redis \<Rightarrow> isDuplicate_pc \<times> redis" where
  "isDuplicate_step fingerprint ttlMs BeforeGet r = (AfterGet (redis_get r (dedupKey fingerprint)), r)"
| "isDuplicate_step fingerprint ttlMs (AfterGet exists) r =
     (if exists \<noteq> None then (Returned True, r)
      else (Returned False, redis_setex r (dedupKey fingerprint) (ttlSec_of ttlMs) (RString ''1'')))"
| "isDuplicate_step fingerprint ttlMs (Returned b) r = (Returned b, r)"

text \<open>Two calls in progress on one store, and a schedule that says which call takes
  the next step (\<open>False\<close> the first, \<open>True\<close> the second).\<close>

fun run_two ::
  "string \<times> rat \<Rightarrow> string \<times> rat \<Rightarrow> bool list \<Rightarrow> isDuplicate_pc \<times> isDuplicate_pc \<times> redis
     \<Rightarrow> isDuplicate_pc \<times> isDuplicate_pc \<times> redis" where
  "run_two a b [] st = st"
| "run_two a b (False # sched) (pa, pb, r) =
     (let (pa', r') = isDuplicate_step (fst a) (snd a) pa r in run_two a b sched (pa', pb, r'))"
| "run_two a b (True # sched) (pa, pb, r) =
     (let (pb', r') = isDuplicate_step (fst b) (snd b) pb r in run_two a b sched (pa, pb', r'))"

text \<open>The results of the two calls when they run one after the other, in either
  order.\<close>

definition serial_results :: "string \<times> rat \<Rightarrow> string \<times> rat \<Rightarrow> redis \<Rightarrow> (bool \<times> bool) set" where
  "serial_results a b r =
     {(let (ra, r1) = isDuplicate_redis r (fst a) (snd a);
           (rb, r2) = isDuplicate_redis r1 (fst b) (snd b) in (ra, rb)),
      (let (rb, r1) = isDuplicate_redis r (fst b) (snd b);
           (ra, r2) = isDuplicate_redis r1 (fst a) (snd a) in (ra, rb))}"

section \<open>The chat mirror (discord/client.ts)\<close>

text \<open>
  The chat service is outside the program. A run receives its answers as an oracle:
  whether the client is ready, what fetching a channel gives (it throws, or yields
  \<open>null\<close>, or a channel with the four properties the source reads), whether fetching
  and editing a message succeed, the id of a message sent to a channel (\<open>None\<close> when
  \<open>send\<close> throws) and the id of a thread started off a message (\<open>None\<close> when
  \<open>startThread\<close> throws). Every \<open>new Date()\<close> and \<open>Date.now()\<close> of one run reads the
  same instant \<open>now\<close>.
\<close>

record channel =
  ch_isTextBased :: bool
  ch_isDMBased :: bool
  ch_isThread :: bool
  ch_hasThreads :: bool

datatype fetch_result = FetchThrows | FetchNull | Fetched channel

record discord =
  d_ready :: bool
  d_fetch_channel :: "string \<Rightarrow> fetch_result"
  d_fetch_message :: "string \<Rightarrow> string \<Rightarrow> bool"
  d_edit :: "string \<Rightarrow> message_body \<Rightarrow> bool"
  d_send :: "string \<Rightarrow> message_body \<Rightarrow> string option"
  d_startThread :: "string \<Rightarrow> string option"

text \<open>\<open>ch?.isTextBased() && !ch.isDMBased()\<close>\<close>

fun text_channel :: "fetch_result \<Rightarrow> bool" where
  "text_channel (Fetched ch) = (ch_isTextBased ch \<and> \<not> ch_isDMBased ch)"
| "text_channel r = False"

definition ACK_BUTTON_CUSTOM_ID :: string where
  "ACK_BUTTON_CUSTOM_ID = ''alert_ack''"

definition TROUBLESHOOT_BUTTON_CUSTOM_ID :: string where
  "TROUBLESHOOT_BUTTON_CUSTOM_ID = ''alert_troubleshoot''"

definition RESOLVE_BUTTON_CUSTOM_ID :: string where
  "RESOLVE_BUTTON_CUSTOM_ID = ''alert_resolve''"


definition MENTION_ESCALATION_STEP_MS :: int where
  "MENTION_ESCALATION_STEP_MS = 5 * 60 * 1000"

definition ACK_REMINDER_AFTER_MS :: int where
  "ACK_REMINDER_AFTER_MS = 60 * 60 * 1000"

text \<open>The template \<open>${prefix}:${alertId}:${resource ?? ""}\<close> of a button's custom id.\<close>

definition customId_of :: "string \<Rightarrow> string \<Rightarrow> string option \<Rightarrow> string" where
  "customId_of prefix alertId resource = prefix @ '':'' @ alertId @ '':'' @ or_else resource []"

text \<open>\<open>Date.now() - new Date(ts).getTime() > ms\<close>; a comparison with \<open>NaN\<close> is false.\<close>

definition elapsed_gt :: "runtime \<Rightarrow> int \<Rightarrow> string \<Rightarrow> int \<Rightarrow> bool" where
  "elapsed_gt rt now ts ms = (case Date_getTime rt ts of None \<Rightarrow> False | Some t \<Rightarrow> now - t > ms)"

text \<open>\<open>x && ...\<close> on an optional string: present and not empty.\<close>

definition truthy_opt :: "string option \<Rightarrow> bool" where
  "truthy_opt so = (case so of None \<Rightarrow> False | Some s \<Rightarrow> truthy_str s)"

text \<open>The em dash U+2014, by its three UTF-8 bytes.\<close>

definition em_dash :: string where
  "em_dash = [CHR 0xE2, CHR 0x80, CHR 0x94]"

datatype send_error = ClientNotReady | ChannelNotText | SendThrows | StartThreadThrows

text \<open>The rows of buttons of an alert message: three buttons while firing, none
  otherwise.\<close>

definition alert_components :: "AlertApiPayload \<Rightarrow> button list list" where
  "alert_components payload =
     (if p_status payload = Firing
      then [[Button (customId_of ACK_BUTTON_CUSTOM_ID (p_alertId payload) (p_resource payload))
               ''Acknowledge'' Primary,
             Button (customId_of TROUBLESHOOT_BUTTON_CUSTOM_ID (p_alertId payload) (p_resource payload))
               ''Troubleshooting guide'' Secondary,
             Button (customId_of RESOLVE_BUTTON_CUSTOM_ID (p_alertId payload) (p_resource payload))
               ''Resolve'' Success]]
      else [])"

definition thread_name :: "AlertApiPayload \<Rightarrow> string" where
  "thread_name payload = ''Incident: '' @ js_slice0 50 (p_title payload)"

text \<open>The fields of the "Alert repeated" embed.\<close>

definition repeatedFields :: "runtime \<Rightarrow> int \<Rightarrow> AlertApiPayload \<Rightarrow> (string \<times> string) list" where
  "repeatedFields rt now payload =
     [(''Time'', Date_toISOString rt now),
      (''Severity'', or_else (p_severity payload) em_dash)]
     @ (if truthy_opt (p_resource payload) then [(''Resource'', the (p_resource payload))] else [])"

text \<open>\<open>typeConfig?.mentions?.[0]\<close> for the rule of a stored record.\<close>

definition firstMention_of :: "AlertsConfig \<Rightarrow> StoredAlert \<Rightarrow> string option" where
  "firstMention_of getAlertsConfig stored =
     (case getAlertsConfig (or_else (sa_ruleName stored) []) of
        None \<Rightarrow> None
      | Some c \<Rightarrow> (case cfg_mentions c of None \<Rightarrow> None | Some ms \<Rightarrow> js_index ms 0))"

text \<open>After the repeat notice: the reminder for an alert acknowledged more than an hour
  ago. A failure of this \<open>send\<close> is swallowed.\<close>

definition ack_reminder ::
  "runtime \<Rightarrow> AlertsConfig \<Rightarrow> discord \<Rightarrow> int \<Rightarrow> world \<Rightarrow> StoredAlert \<Rightarrow> string \<Rightarrow> world" where
  "ack_reminder rt getAlertsConfig d now w stored tc =
     (if sa_state stored = Acknowledged \<and> truthy_opt (sa_acknowledgedAt stored)
         \<and> elapsed_gt rt now (the (sa_acknowledgedAt stored)) ACK_REMINDER_AFTER_MS
      then
        (let firstMention = firstMention_of getAlertsConfig stored;
             body = Content (''This alert was acknowledged but not resolved.''
                             @ [CHR 0x0A] @ mention (the firstMention))
         in if truthy_opt firstMention \<and> d_send d tc body \<noteq> None
            then emit (Channel_send tc body) w
            else w)
      else w)"

text \<open>\<open>if (threadChannel) { await threadChannel.send(...); ... }\<close>: a \<open>send\<close> that
  throws leaves the block.\<close>

definition post_repeat ::
  "runtime \<Rightarrow> AlertsConfig \<Rightarrow> discord \<Rightarrow> int \<Rightarrow> world \<Rightarrow> AlertApiPayload \<Rightarrow> StoredAlert
     \<Rightarrow> string option \<Rightarrow> world" where
  "post_repeat rt getAlertsConfig d now w payload stored threadChannel =
     (case threadChannel of
        None \<Rightarrow> w
      | Some tc \<Rightarrow>
          (case d_send d tc (AlertRepeated (repeatedFields rt now payload)) of
             None \<Rightarrow> w
           | Some m \<Rightarrow>
               ack_reminder rt getAlertsConfig d now
                 (emit (Channel_send tc (AlertRepeated (repeatedFields rt now payload))) w) stored tc))"

text \<open>The inner \<open>try\<close> block of the update path, run for a firing payload: post the
  repeat notice into the incident thread, starting a thread when there is none. The
  result is \<open>newThreadId\<close> and the world. An exception leaves the block at once.\<close>

definition repeat_in_thread ::
  "runtime \<Rightarrow> AlertsConfig \<Rightarrow> discord \<Rightarrow> int \<Rightarrow> world \<Rightarrow> AlertApiPayload \<Rightarrow> StoredAlert \<Rightarrow> channel
     \<Rightarrow> string option \<times> world" where
  "repeat_in_thread rt getAlertsConfig d now w payload stored ch =
     (let fetched = (if truthy_opt (sa_threadId stored)
                     then Some (d_fetch_channel d (the (sa_threadId stored))) else None)
      in if fetched = Some FetchThrows then (sa_threadId stored, w)
         else
          (let threadChannel0 = (case fetched of
                                   Some f \<Rightarrow> if text_channel f then sa_threadId stored else None
                                 | None \<Rightarrow> None)
           in if threadChannel0 = None \<and> \<not> ch_isThread ch \<and> ch_hasThreads ch
              then (case d_startThread d (sa_messageId stored) of
                      None \<Rightarrow> (sa_threadId stored, w)
                    | Some newThread \<Rightarrow>
                        (Some newThread,
                         post_repeat rt getAlertsConfig d now
                           (emit (Message_startThread (sa_messageId stored) (thread_name payload)) w)
                           payload stored (Some newThread)))
              else (sa_threadId stored,
                    post_repeat rt getAlertsConfig d now w payload stored threadChannel0)))"

text \<open>The record that the update path persists.\<close>

definition updated_record ::
  "runtime \<Rightarrow> int \<Rightarrow> AlertApiPayload \<Rightarrow> StoredAlert \<Rightarrow> string option \<Rightarrow> StoredAlert" where
  "updated_record rt now payload stored newThreadId =
     \<lparr>sa_messageId = sa_messageId stored,
      sa_channelId = p_channelId payload,
      sa_threadId = newThreadId,
      sa_state = (if p_status payload = Resolved then Resolved
                  else if p_status payload = Acknowledged then Acknowledged
                  else Firing),
      sa_updatedAt = Date_toISOString rt now,
      sa_ruleName = or_else_opt (p_ruleName payload) (sa_ruleName stored),
      sa_acknowledgedBy = sa_acknowledgedBy stored,
      sa_resolvedBy = sa_resolvedBy stored,
      sa_severity = or_else_opt (p_severity payload) (sa_severity stored),
      sa_mentionLevel = None,
      sa_resolvedAt = (if p_status payload = Resolved
                       then Some (or_else (p_resolvedAt payload) (Date_toISOString rt now))
                       else sa_resolvedAt stored),
      sa_acknowledgedAt = sa_acknowledgedAt stored\<rparr>"

text \<open>The \<open>try\<close> block of the update path, entered when a record with a message id is
  stored: \<open>None\<close> when an exception makes the function fall through to a new message.\<close>

definition update_existing ::
  "runtime \<Rightarrow> AlertsConfig \<Rightarrow> discord \<Rightarrow> int \<Rightarrow> world \<Rightarrow> AlertApiPayload \<Rightarrow> StoredAlert
     \<Rightarrow> (string \<times> world) option" where
  "update_existing rt getAlertsConfig d now w payload stored =
     (case d_fetch_channel d (p_channelId payload) of
        Fetched ch \<Rightarrow>
          if \<not> ch_isTextBased ch \<or> ch_isDMBased ch then None
          else if \<not> d_fetch_message d (p_channelId payload) (sa_messageId stored) then None
          else if \<not> d_edit d (sa_messageId stored) (AlertMessage payload (alert_components payload))
            then None
          else
            (let w1 = emit (Message_edit (p_channelId payload) (sa_messageId stored)
                              (AlertMessage payload (alert_components payload))) w;
                 repeated = (if p_status payload = Firing
                             then repeat_in_thread rt getAlertsConfig d now w1 payload stored ch
                             else (sa_threadId stored, w1))
             in Some (sa_messageId stored,
                      setStoredAlert (snd repeated) (p_alertId payload) (p_resource payload)
                        (updated_record rt now payload stored (fst repeated))))
      | _ \<Rightarrow> None)"

text \<open>The record of a new incident.\<close>

definition fresh_record ::
  "runtime \<Rightarrow> int \<Rightarrow> AlertApiPayload \<Rightarrow> string \<Rightarrow> string option \<Rightarrow> StoredAlert" where
  "fresh_record rt now payload messageId thread =
     \<lparr>sa_messageId = messageId,
      sa_channelId = p_channelId payload,
      sa_threadId = thread,
      sa_state = (if p_status payload = Resolved then Resolved else Firing),
      sa_updatedAt = Date_toISOString rt now,
      sa_ruleName = p_ruleName payload,
      sa_acknowledgedBy = None,
      sa_resolvedBy = None,
      sa_severity = p_severity payload,
      sa_mentionLevel = None,
      sa_resolvedAt = None,
      sa_acknowledgedAt = None\<rparr>"

text \<open>The rest of \<open>sendOrUpdateAlert\<close>: a new message, its thread and a fresh record.\<close>

definition send_new ::
  "runtime \<Rightarrow> discord \<Rightarrow> int \<Rightarrow> world \<Rightarrow> AlertApiPayload \<Rightarrow> (send_error + string) \<times> world" where
  "send_new rt d now w payload =
     (case d_fetch_channel d (p_channelId payload) of
        Fetched ch \<Rightarrow>
          if \<not> ch_isTextBased ch \<or> ch_isDMBased ch then (Inl ChannelNotText, w)
          else
            (case d_send d (p_channelId payload) (AlertMessage payload (alert_components payload)) of
               None \<Rightarrow> (Inl SendThrows, w)
             | Some messageId \<Rightarrow>
                 (let w1 = emit (Channel_send (p_channelId payload)
                                   (AlertMessage payload (alert_components payload))) w
                  in if ch_isThread ch \<or> \<not> ch_hasThreads ch
                     then (Inr messageId,
                           setStoredAlert w1 (p_alertId payload) (p_resource payload)
                             (fresh_record rt now payload messageId None))
                     else (case d_startThread d messageId of
                             None \<Rightarrow> (Inl StartThreadThrows, w1)
                           | Some thread \<Rightarrow>
                               (Inr messageId,
                                setStoredAlert
                                  (emit (Message_startThread messageId (thread_name payload)) w1)
                                  (p_alertId payload) (p_resource payload)
                                  (fresh_record rt now payload messageId (Some thread))))))
      | _ \<Rightarrow> (Inl ChannelNotText, w))"

text \<open>\<open>sendOrUpdateAlert\<close>: \<open>Inr\<close> the message id, \<open>Inl\<close> the exception it throws.\<close>

definition sendOrUpdateAlert ::
  "runtime \<Rightarrow> AlertsConfig \<Rightarrow> discord \<Rightarrow> int \<Rightarrow> world \<Rightarrow> AlertApiPayload \<Rightarrow> (send_error + string) \<times> world" where
  "sendOrUpdateAlert rt getAlertsConfig d now w0 payload =
     (let w = emit (Call_sendOrUpdateAlert payload) w0 in
      if \<not> d_ready d then (Inl ClientNotReady, w)
      else
        (let stored = getStoredAlert w (p_alertId payload) (p_resource payload);
             updated = (case stored of
                          Some s \<Rightarrow> if truthy_str (sa_messageId s)
                                    then update_existing rt getAlertsConfig d now w payload s else None
                        | None \<Rightarrow> None)
         in case updated of
              Some (messageId, w') \<Rightarrow> (Inr messageId, w')
            | None \<Rightarrow> send_new rt d now w payload))"

subsection \<open>The Acknowledge button\<close>








subsection \<open>Mention escalation\<close>

text \<open>The body of the loop of \<open>startMentionEscalation\<close> for one key of the incident
  store.\<close>

definition escalation_message :: "string \<Rightarrow> int \<Rightarrow> message_body" where
  "escalation_message userId level =
     Content (mention userId @ '' Critical alert still not acknowledged or resolved (escalation level ''
              @ show_nat (nat (level + 1)) @ '').'')"

text \<open>The alert id and the resource that the loop reads from a key of the incident
  store: \<open>parts[1]\<close>, and \<open>parts[2]\<close> unless it is \<open>"default"\<close>.\<close>

definition key_alertId :: "string \<Rightarrow> string" where
  "key_alertId key = js_split CHR '':'' key ! 1"

definition key_resource :: "string \<Rightarrow> string option" where
  "key_resource key =
     (if js_split CHR '':'' key ! 2 = ''default'' then None else Some (js_split CHR '':'' key ! 2))"

definition escalateKey ::
  "runtime \<Rightarrow> AlertsConfig \<Rightarrow> discord \<Rightarrow> int \<Rightarrow> world \<Rightarrow> string \<Rightarrow> world" where
  "escalateKey rt config d now w key =
     (if length (js_split CHR '':'' key) < 3 then w
      else
        (let alertId = key_alertId key;
             resource = key_resource key
         in case getStoredAlert w alertId resource of
              None \<Rightarrow> w
            | Some stored \<Rightarrow>
                if sa_state stored = Resolved \<or> sa_state stored = Acknowledged then w
                else if toLowerCase (or_else (sa_severity stored) []) \<noteq> ''critical'' then w
                else
                  (let typeConfig = config (or_else (sa_ruleName stored) []);
                       mentions = (case typeConfig of None \<Rightarrow> None | Some c \<Rightarrow> cfg_mentions c)
                   in case mentions of
                        None \<Rightarrow> w
                      | Some ms \<Rightarrow>
                          if length ms = 0 then w
                          else
                            (let level = or_else (sa_mentionLevel stored) 0 in
                             if level \<ge> int (length ms) then w
                             else
                               (let threshold = (level + 1) * MENTION_ESCALATION_STEP_MS in
                                if (case Date_getTime rt (sa_updatedAt stored) of
                                      None \<Rightarrow> False
                                    | Some t \<Rightarrow> now - t < threshold) then w
                                else
                                  (let threadId = or_else (sa_threadId stored) (sa_channelId stored);
                                       userId = js_index ms level
                                   in if \<not> truthy_opt userId then w
                                      else if \<not> text_channel (d_fetch_channel d threadId) then w
                                      else
                                        (let body = escalation_message (the userId) level in
                                         case d_send d threadId body of
                                           None \<Rightarrow> w
                                         | Some m \<Rightarrow>
                                             setStoredAlert (emit (Channel_send threadId body) w)
                                               alertId resource
                                               (stored\<lparr>sa_mentionLevel := Some (level + 1)\<rparr>))))))))"

text \<open>One tick of the loop: nothing when the client is not ready, else the keys in the
  order \<open>getStoredAlertKeys\<close> returned them.\<close>

definition escalationTick ::
  "runtime \<Rightarrow> AlertsConfig \<Rightarrow> discord \<Rightarrow> int \<Rightarrow> string list \<Rightarrow> world \<Rightarrow> world" where
  "escalationTick rt config d now keys w =
     (if \<not> d_ready d then w else fold (\<lambda>key w'. escalateKey rt config d now w' key) keys w)"

text \<open>Successive ticks that look at one key, at the given instants.\<close>

fun ticks :: "runtime \<Rightarrow> AlertsConfig \<Rightarrow> discord \<Rightarrow> string \<Rightarrow> int list \<Rightarrow> world \<Rightarrow> world" where
  "ticks rt config d key [] w = w"
| "ticks rt config d key (now # later) w = ticks rt config d key later (escalateKey rt config d now w key)"

section \<open>The processor (services/processor.ts)\<close>

definition RESOLVED_NEW_ALERT_AFTER_MS :: int where
  "RESOLVED_NEW_ALERT_AFTER_MS = 30 * 60 * 1000"

text \<open>\<open>1.5 * 60 * 60 * 1000\<close>\<close>

definition ACK_NEW_INCIDENT_AFTER_MS :: int where
  "ACK_NEW_INCIDENT_AFTER_MS = 5400000"

text \<open>The lifecycle-expiry check of \<open>processOneAlertPayload\<close>: its two conditions, and
  the world after the deletions they guard.\<close>

definition resolved_expired :: "runtime \<Rightarrow> int \<Rightarrow> StoredAlert option \<Rightarrow> bool" where
  "resolved_expired rt now stored =
     (let resolvedAt =
            (case stored of
               None \<Rightarrow> None
             | Some s \<Rightarrow> or_else_opt (sa_resolvedAt s)
                          (if sa_state s = Resolved then Some (sa_updatedAt s) else None))
      in truthy_opt resolvedAt \<and> elapsed_gt rt now (the resolvedAt) RESOLVED_NEW_ALERT_AFTER_MS)"

definition ack_expired :: "runtime \<Rightarrow> int \<Rightarrow> StoredAlert option \<Rightarrow> bool" where
  "ack_expired rt now stored =
     (case stored of
        None \<Rightarrow> False
      | Some s \<Rightarrow> sa_state s = Acknowledged \<and> truthy_opt (sa_acknowledgedAt s)
                  \<and> elapsed_gt rt now (the (sa_acknowledgedAt s)) ACK_NEW_INCIDENT_AFTER_MS)"

definition expiry_check :: "runtime \<Rightarrow> int \<Rightarrow> world \<Rightarrow> AlertApiPayload \<Rightarrow> world" where
  "expiry_check rt now w payload =
     (let stored = getStoredAlert w (p_alertId payload) (p_resource payload);
          w1 = (if resolved_expired rt now stored
                then deleteStoredAlert w (p_alertId payload) (p_resource payload) else w);
          w2 = (if ack_expired rt now stored
                then deleteStoredAlert w1 (p_alertId payload) (p_resource payload) else w1)
      in w2)"

text \<open>\<open>processOneAlertPayload\<close>; \<open>database\<close> says whether \<open>process.env.DATABASE_URL\<close> is
  set.\<close>

definition processOneAlertPayload ::
  "runtime \<Rightarrow> AlertsConfig \<Rightarrow> discord \<Rightarrow> int \<Rightarrow> bool \<Rightarrow> world \<Rightarrow> AlertApiPayload \<Rightarrow> world" where
  "processOneAlertPayload rt getAlertsConfig d now database w0 apiPayload =
     (let ruleName = or_else (p_ruleName apiPayload) ''default'';
          w1 = emit (Inc ''alerts_received_total'') w0;
          config = getAlertsConfig ruleName
      in if (case config of None \<Rightarrow> True | Some c \<Rightarrow> \<not> truthy_str (cfg_channelId c))
         then emit (Inc ''no_config_suppressed_total'') w1
         else
           (let suppressWindowMs = or_else (cfg_suppressWindowMs (the config)) (5 * 60 * 1000);
                (duplicate, w2) =
                  (if p_status apiPayload = Resolved
                   then (False, clearDedup w1 (p_alertId apiPayload))
                   else isDuplicate w1 (p_alertId apiPayload) suppressWindowMs)
            in if duplicate then emit (Inc ''dedup_suppressed_total'') w2
               else
                 (let w3 = expiry_check rt now w2 apiPayload in
                  case sendOrUpdateAlert rt getAlertsConfig d now w3 apiPayload of
                    (Inr messageId, w4) \<Rightarrow>
                      (let w5 = emit (Inc ''alerts_sent_total'') w4
                       in if database then emit (Call_insertAlertEvent apiPayload messageId) w5 else w5)
                  | (Inl err, w4) \<Rightarrow> emit (Inc ''discord_errors_total'') w4)))"

text \<open>Where an event stands in a trace: the positions of the events that satisfy a
  predicate.\<close>

definition positions :: "(event \<Rightarrow> bool) \<Rightarrow> event list \<Rightarrow> nat list" where
  "positions P tr = filter (\<lambda>i. P (tr ! i)) [0..<length tr]"

text \<open>The claim's lifecycle-expiry rule for a prior record, in its own words.\<close>

definition claimed_delete :: "runtime \<Rightarrow> int \<Rightarrow> StoredAlert \<Rightarrow> bool" where
  "claimed_delete rt now s =
     ((sa_state s = Resolved \<and> (case sa_resolvedAt s of
                                   None \<Rightarrow> False
                                 | Some ts \<Rightarrow> elapsed_gt rt now ts (30 * 60 * 1000)))
      \<or> (sa_state s = Acknowledged \<and> (case sa_acknowledgedAt s of
                                        None \<Rightarrow> False
                                      | Some ts \<Rightarrow> elapsed_gt rt now ts (90 * 60 * 1000))))"

text \<open>Kinds of events: what the lifecycle-expiry check does, what the chat mirror does
  after it is called, and how a run of the processor ends.\<close>

fun expiry_event :: "event \<Rightarrow> bool" where
  "expiry_event (Call_deleteStoredAlert a r) = True"
| "expiry_event e = False"

fun chat_event :: "event \<Rightarrow> bool" where
  "chat_event (Message_edit c m b) = True"
| "chat_event (Channel_send c b) = True"
| "chat_event (Message_startThread m n) = True"
| "chat_event (Call_setStoredAlert a r s) = True"
| "chat_event e = False"

fun outcome_event :: "event \<Rightarrow> bool" where
  "outcome_event (Inc n) = (n = ''alerts_sent_total'' \<or> n = ''discord_errors_total'')"
| "outcome_event (Call_insertAlertEvent p m) = True"
| "outcome_event e = False"

fun dedup_consulted :: "event \<Rightarrow> bool" where
  "dedup_consulted (Call_isDuplicate f t) = True"
| "dedup_consulted (Inc n) = (n = ''dedup_suppressed_total'')"
| "dedup_consulted e = False"

text \<open>The events of a run: what the trace has gained.\<close>

definition events_since :: "world \<Rightarrow> world \<Rightarrow> event list" where
  "events_since w w' = drop (length (w_trace w)) (w_trace w')"

text \<open>\<open>w'\<close> comes from \<open>w\<close> by events of one kind that leave every dedup key as it
  was.\<close>

definition extends :: "(event \<Rightarrow> bool) \<Rightarrow> world \<Rightarrow> world \<Rightarrow> bool" where
  "extends P w w' =
     ((\<exists>new. w_trace w' = w_trace w @ new \<and> list_all P new)
      \<and> (\<forall>fp. w_redis w' (dedupKey fp) = w_redis w (dedupKey fp)))"

section \<open>Concrete inputs\<close>

text \<open>A runtime for the examples: it parses two message texts, prints every number as
  \<open>0\<close>, and reads and writes an instant as the decimal digits of its whole minutes
  after the epoch.\<close>

definition alarm_text :: string where
  "alarm_text = ''{'' @ [CHR 0x22] @ ''AlarmName'' @ [CHR 0x22] @ '':'' @ [CHR 0x22] @ ''x'' @ [CHR 0x22] @ ''}''"

definition blank_detail_text :: string where
  "blank_detail_text =
     ''{'' @ [CHR 0x22] @ ''detail-type'' @ [CHR 0x22] @ '':'' @ [CHR 0x22] @ '' '' @ [CHR 0x22] @ '',''
       @ [CHR 0x22] @ ''source'' @ [CHR 0x22] @ '':'' @ [CHR 0x22] @ ''aws.ec2'' @ [CHR 0x22] @ ''}''"

fun digits_value :: "nat \<Rightarrow> string \<Rightarrow> nat option" where
  "digits_value acc [] = Some acc"
| "digits_value acc (c # cs) =
     (if c \<in> set ''0123456789'' then digits_value (10 * acc + (of_char c - 48)) cs else None)"

definition example_runtime :: runtime where
  "example_runtime =
     \<lparr>JSON_parse = (\<lambda>s. if s = alarm_text then Some (JObj [(''AlarmName'', JStr ''x'')])
                         else if s = blank_detail_text
                           then Some (JObj [(''detail-type'', JStr '' ''), (''source'', JStr ''aws.ec2'')])
                         else None),
      JSON_stringify = (\<lambda>v. []),
      Number_toString = (\<lambda>n. ''0''),
      Date_getTime = (\<lambda>s. if s = [] then None
                           else map_option (\<lambda>m. 60000 * int m) (digits_value 0 s)),
      Date_toISOString = (\<lambda>ms. show_nat (nat (ms div 60000)))\<rparr>"

definition example_alert :: "string \<Rightarrow> SingleAlert" where
  "example_alert endsAt =
     \<lparr>a_status = Some ''resolved'',
      a_labels = [(''alertname'', ''HighCPU''), (''severity'', ''critical'')],
      a_annotations = [(''summary'', ''CPU high'')],
      a_startsAt = Some ''2024-01-01T10:00:00Z'',
      a_endsAt = Some endsAt,
      a_generatorURL = None,
      a_fingerprint = Some ''fp1''\<rparr>"

definition example_rule :: AlertTypeConfig where
  "example_rule =
     \<lparr>cfg_channelId = ''c1'',
      cfg_suppressWindowMs = Some 300000,
      cfg_importantLabels = None,
      cfg_hiddenLabels = None,
      cfg_thumbnailUrl = None,
      cfg_mentions = Some [''u1'', ''u2'', ''u3'']\<rparr>"

definition example_config :: AlertsConfig where
  "example_config = (\<lambda>n. if n = ''HighCPU'' \<or> n = ''sns'' then Some example_rule else None)"

definition example_envelope :: "string \<Rightarrow> string option \<Rightarrow> string \<Rightarrow> SnsNotificationEnvelope" where
  "example_envelope mid subject message =
     \<lparr>MessageId = mid,
      TopicArn = None,
      Subject = subject,
      Message = message,
      Timestamp = Some ''2026-02-11T12:00:00Z'',
      MessageAttributes = None,
      UnsubscribeURL = None,
      SigningCertURL = None,
      Signature = None\<rparr>"

text \<open>A pushed configuration, from the repository's test of the \<open>mentions\<close> filter.\<close>

definition example_pushed :: jsval where
  "example_pushed =
     JObj [(''Alert'', JObj [(''channelId'', JStr ''ch-1''),
                             (''suppressWindowMs'', JNum 60000),
                             (''mentions'', JArr [JStr ''user1'', JNum 42, JNull, JStr ''user2''])])]"

definition example_validated :: "(string \<times> jsval) list" where
  "example_validated =
     [(''Alert'', JObj [(''channelId'', JStr ''ch-1''),
                        (''suppressWindowMs'', JNum 60000),
                        (''importantLabels'', JUndefined),
                        (''hiddenLabels'', JUndefined),
                        (''thumbnailUrl'', JUndefined),
                        (''mentions'', JArr [JStr ''user1'', JStr ''user2''])])]"

text \<open>The world before anything is stored.\<close>

definition empty_world :: world where
  "empty_world = \<lparr>w_redis = Map.empty, w_trace = []\<rparr>"

text \<open>The incident of the spec's scenarios: the critical alert \<open>fp1\<close> of the rule
  \<open>HighCPU\<close>, firing since minute 0, its fingerprint in the dedup store.\<close>

definition example_stored :: StoredAlert where
  "example_stored =
     \<lparr>sa_messageId = ''msg-1'',
      sa_channelId = ''c1'',
      sa_threadId = Some ''t1'',
      sa_state = Firing,
      sa_updatedAt = ''0'',
      sa_ruleName = Some ''HighCPU'',
      sa_acknowledgedBy = None,
      sa_resolvedBy = None,
      sa_severity = Some ''critical'',
      sa_mentionLevel = None,
      sa_resolvedAt = None,
      sa_acknowledgedAt = None\<rparr>"

definition world_with :: "StoredAlert \<Rightarrow> world" where
  "world_with s =
     \<lparr>w_redis = [alertKey ''fp1'' None \<mapsto> (RAlert s, TTL_SEC),
                 dedupKey ''fp1'' \<mapsto> (RString ''1'', 300)],
      w_trace = []\<rparr>"

definition example_payload :: "AlertState \<Rightarrow> AlertApiPayload" where
  "example_payload status =
     \<lparr>p_alertId = ''fp1'',
      p_resource = None,
      p_title = ''Alert: HighCPU'',
      p_description = Some ''CPU high'',
      p_status = status,
      p_severity = Some ''critical'',
      p_fields = None,
      p_startedAt = ''0'',
      p_resolvedAt = None,
      p_generatorURL = None,
      p_channelId = ''c1'',
      p_ruleName = Some ''HighCPU'',
      p_thumbnailUrl = None,
      p_source = Some ''grafana''\<rparr>"

text \<open>A chat service where everything succeeds: every channel is a text channel of a
  guild that can hold threads, a message sent gets the id \<open>msg-2\<close> and a thread started
  the id \<open>t2\<close>.\<close>

definition example_discord :: discord where
  "example_discord =
     \<lparr>d_ready = True,
      d_fetch_channel = (\<lambda>c. Fetched \<lparr>ch_isTextBased = True, ch_isDMBased = False,
                                       ch_isThread = False, ch_hasThreads = True\<rparr>),
      d_fetch_message = (\<lambda>c m. True),
      d_edit = (\<lambda>m b. True),
      d_send = (\<lambda>c b. Some ''msg-2''),
      d_startThread = (\<lambda>m. Some ''t2'')\<rparr>"




text \<open>The incident of \<open>example_stored\<close> once resolved at minute 0, and the same incident
  after it has fired again at minute 10.\<close>

definition resolved_stored :: StoredAlert where
  "resolved_stored = example_stored\<lparr>sa_state := Resolved, sa_resolvedAt := Some ''0''\<rparr>"

definition refired_stored :: StoredAlert where
  "refired_stored = example_stored\<lparr>sa_updatedAt := ''10'', sa_resolvedAt := Some ''0''\<rparr>"
chapter \<open>Properties\<close>

section \<open>The embed field builders\<close>

lemma carryField_asEmbedField: "carryField (asEmbedField f) = f"
  by (simp add: carryField_def asEmbedField_def)

lemma name_carryField: "rf_name (carryField f) = ef_name f"
  by (simp add: carryField_def)

lemma name_asEmbedField: "ef_name (asEmbedField f) = rf_name f"
  by (simp add: asEmbedField_def)

lemma map_carry_as: "map carryField (map asEmbedField fs) = fs"
  by (induction fs) (simp_all add: carryField_asEmbedField)

lemma count_name_append: "count_name n (xs @ ys) = count_name n xs + count_name n ys"
  by (simp add: count_name_def)

lemma count_name_carry_excluded:
  assumes "\<And>f. P f \<Longrightarrow> ef_name f \<noteq> n"
  shows "count_name n (map carryField (filter P xs)) = 0"
  using assms by (induction xs) (auto simp: count_name_def name_carryField)

text \<open>Filtering what was already filtered and carried through removes nothing.\<close>

lemma refilter_carried:
  assumes "\<And>f. P f \<Longrightarrow> Q (ef_name f)"
  shows "filter (\<lambda>f. Q (ef_name f)) (map asEmbedField (map carryField (filter P xs)))
         = map asEmbedField (map carryField (filter P xs))"
  using assms by (induction xs) (auto simp: name_asEmbedField name_carryField)

lemma take_drop_carried:
  "take (length (filter P xs)) (map carryField (filter P xs) @ ys) = map carryField (filter P xs)"
  "drop (length (filter P xs)) (map carryField (filter P xs) @ ys) = ys"
  by simp_all

lemma carried_components:
  "map rf_name (map carryField ys) = map ef_name ys"
  "map rf_value (map carryField ys) = map ef_value ys"
  "map rf_inline (map carryField ys) = map (\<lambda>f. inline_or (ef_inline f) True) ys"
  by (simp_all add: carryField_def comp_def)

lemma buildResolvedFields_split:
  "buildResolvedFields xs u t = map carryField (filter resolved_kept xs) @ resolved_tail u t"
  by (simp add: buildResolvedFields_def resolved_kept_def [abs_def] resolved_tail_def js_slice0_def
      mention_def)

lemma buildAcknowledgedFields_split:
  "buildAcknowledgedFields xs u = map carryField (filter acknowledged_kept xs) @ acknowledged_tail u"
  by (simp add: buildAcknowledgedFields_def acknowledged_kept_def [abs_def] acknowledged_tail_def
      mention_def)

lemma buildResolvedFields_idem:
  "buildResolvedFields (map asEmbedField (buildResolvedFields xs u t)) u t = buildResolvedFields xs u t"
proof -
  have keep: "filter resolved_kept (map asEmbedField (map carryField (filter resolved_kept xs)))
      = map asEmbedField (map carryField (filter resolved_kept xs))"
    unfolding resolved_kept_def by (rule refilter_carried) simp
  have drop_tail: "filter resolved_kept (map asEmbedField (resolved_tail u t)) = []"
    by (simp add: resolved_kept_def resolved_tail_def asEmbedField_def)
  show ?thesis
    unfolding buildResolvedFields_split
    by (simp only: map_append filter_append keep drop_tail map_carry_as append_Nil2)
qed

lemma buildAcknowledgedFields_idem:
  "buildAcknowledgedFields (map asEmbedField (buildAcknowledgedFields xs u)) u = buildAcknowledgedFields xs u"
proof -
  have keep: "filter acknowledged_kept (map asEmbedField (map carryField (filter acknowledged_kept xs)))
      = map asEmbedField (map carryField (filter acknowledged_kept xs))"
    unfolding acknowledged_kept_def by (rule refilter_carried) simp
  have drop_tail: "filter acknowledged_kept (map asEmbedField (acknowledged_tail u)) = []"
    by (simp add: acknowledged_kept_def acknowledged_tail_def asEmbedField_def)
  show ?thesis
    unfolding buildAcknowledgedFields_split
    by (simp only: map_append filter_append keep drop_tail map_carry_as append_Nil2)
qed

lemma resolved_counts:
  "count_name ''Status'' (buildResolvedFields xs u t) = 1"
  "count_name ''Resolved by'' (buildResolvedFields xs u t) = 1"
  "count_name ''Resolved at'' (buildResolvedFields xs u t) = 1"
proof -
  have c0: "count_name n (map carryField (filter resolved_kept xs)) = 0"
    if "n \<in> {''Status'', ''Resolved by'', ''Resolved at''}" for n
    using that by (intro count_name_carry_excluded) (auto simp: resolved_kept_def)
  have c1: "count_name ''Status'' (resolved_tail u t) = 1"
    "count_name ''Resolved by'' (resolved_tail u t) = 1"
    "count_name ''Resolved at'' (resolved_tail u t) = 1"
    by (simp_all add: count_name_def resolved_tail_def)
  show "count_name ''Status'' (buildResolvedFields xs u t) = 1"
    "count_name ''Resolved by'' (buildResolvedFields xs u t) = 1"
    "count_name ''Resolved at'' (buildResolvedFields xs u t) = 1"
    using c0 c1 by (simp_all add: buildResolvedFields_split count_name_append)
qed

lemma acknowledged_counts:
  "count_name ''Status'' (buildAcknowledgedFields xs u) = 1"
  "count_name ''Acknowledged by'' (buildAcknowledgedFields xs u) = 1"
proof -
  have c0: "count_name n (map carryField (filter acknowledged_kept xs)) = 0"
    if "n \<in> {''Status'', ''Acknowledged by''}" for n
    using that by (intro count_name_carry_excluded) (auto simp: acknowledged_kept_def)
  have c1: "count_name ''Status'' (acknowledged_tail u) = 1"
    "count_name ''Acknowledged by'' (acknowledged_tail u) = 1"
    by (simp_all add: count_name_def acknowledged_tail_def)
  show "count_name ''Status'' (buildAcknowledgedFields xs u) = 1"
    "count_name ''Acknowledged by'' (buildAcknowledgedFields xs u) = 1"
    using c0 c1 by (simp_all add: buildAcknowledgedFields_split count_name_append)
qed

text \<open>
  Claim C10. \<open>buildResolvedFields\<close> is normalizing and idempotent. Let \<open>kept\<close> be the
  input fields whose name is none of "Status", "Resolved by", "Resolved at", in their
  original order. The output starts with the fields of \<open>kept\<close>, with the same names and
  values and \<open>inline\<close> defaulted to true; it ends with the three fields "Status" (value
  "resolved"), "Resolved by" and "Resolved at", in this order; each of these three names
  occurs exactly once in it; and building again from the output, with the same user id
  and timestamp, gives the output back. \<open>buildAcknowledgedFields\<close> has the same
  properties for "Status" (value "acknowledged") and "Acknowledged by".
\<close>

theorem embed_builders_normalizing_idempotent:
  "(let kept = filter (\<lambda>f. ef_name f \<notin> {''Status'', ''Resolved by'', ''Resolved at''}) xs;
        out = buildResolvedFields xs u t
    in map rf_name (take (length kept) out) = map ef_name kept
     \<and> map rf_value (take (length kept) out) = map ef_value kept
     \<and> map rf_inline (take (length kept) out) = map (\<lambda>f. inline_or (ef_inline f) True) kept
     \<and> drop (length kept) out =
         [\<lparr>rf_name = ''Status'', rf_value = ''resolved'', rf_inline = True\<rparr>,
          \<lparr>rf_name = ''Resolved by'', rf_value = ''<@'' @ u @ ''>'', rf_inline = True\<rparr>,
          \<lparr>rf_name = ''Resolved at'', rf_value = replace_first CHR ''T'' '' '' (take 19 t),
            rf_inline = True\<rparr>]
     \<and> count_name ''Status'' out = 1 \<and> count_name ''Resolved by'' out = 1
     \<and> count_name ''Resolved at'' out = 1
     \<and> buildResolvedFields (map asEmbedField out) u t = out)
   \<and>
   (let kept = filter (\<lambda>f. ef_name f \<notin> {''Status'', ''Acknowledged by''}) xs;
        out = buildAcknowledgedFields xs u
    in map rf_name (take (length kept) out) = map ef_name kept
     \<and> map rf_value (take (length kept) out) = map ef_value kept
     \<and> map rf_inline (take (length kept) out) = map (\<lambda>f. inline_or (ef_inline f) True) kept
     \<and> drop (length kept) out =
         [\<lparr>rf_name = ''Status'', rf_value = ''acknowledged'', rf_inline = True\<rparr>,
          \<lparr>rf_name = ''Acknowledged by'', rf_value = ''<@'' @ u @ ''>'', rf_inline = True\<rparr>]
     \<and> count_name ''Status'' out = 1 \<and> count_name ''Acknowledged by'' out = 1
     \<and> buildAcknowledgedFields (map asEmbedField out) u = out)"
proof -
  have k1: "filter (\<lambda>f. ef_name f \<notin> {''Status'', ''Resolved by'', ''Resolved at''}) xs
      = filter resolved_kept xs"
    by (simp add: resolved_kept_def [abs_def])
  have k2: "filter (\<lambda>f. ef_name f \<notin> {''Status'', ''Acknowledged by''}) xs
      = filter acknowledged_kept xs"
    by (simp add: acknowledged_kept_def [abs_def])
  have r: "take (length (filter resolved_kept xs)) (buildResolvedFields xs u t)
             = map carryField (filter resolved_kept xs)"
    "drop (length (filter resolved_kept xs)) (buildResolvedFields xs u t) = resolved_tail u t"
    by (simp_all add: buildResolvedFields_split)
  have a: "take (length (filter acknowledged_kept xs)) (buildAcknowledgedFields xs u)
             = map carryField (filter acknowledged_kept xs)"
    "drop (length (filter acknowledged_kept xs)) (buildAcknowledgedFields xs u) = acknowledged_tail u"
    by (simp_all add: buildAcknowledgedFields_split)
  show ?thesis
    unfolding Let_def k1 k2 r a carried_components
    using resolved_counts [of xs u t] acknowledged_counts [of xs u]
      buildResolvedFields_idem [of xs u t] buildAcknowledgedFields_idem [of xs u]
    by (simp add: resolved_tail_def acknowledged_tail_def)
qed

text \<open>The claim's properties on the field list of a firing critical alert that already
  carries a "Resolved by" field.\<close>

theorem embed_builders_example:
  "buildResolvedFields
     [\<lparr>ef_name = ''Status'', ef_value = ''firing'', ef_inline = InlineBool True\<rparr>,
      \<lparr>ef_name = ''env'', ef_value = ''prod'', ef_inline = InlineNull\<rparr>,
      \<lparr>ef_name = ''Resolved by'', ef_value = ''<@old>'', ef_inline = InlineBool False\<rparr>]
     ''user-1'' ''2024-01-15T11:30:45Z''
   = [\<lparr>rf_name = ''env'', rf_value = ''prod'', rf_inline = True\<rparr>,
      \<lparr>rf_name = ''Status'', rf_value = ''resolved'', rf_inline = True\<rparr>,
      \<lparr>rf_name = ''Resolved by'', rf_value = ''<@user-1>'', rf_inline = True\<rparr>,
      \<lparr>rf_name = ''Resolved at'', rf_value = ''2024-01-15 11:30:45'', rf_inline = True\<rparr>]"
  by (simp add: buildResolvedFields_def carryField_def mention_def js_slice0_def)

section \<open>The webhook normalizer\<close>

lemmas js_char_eval =
  js_upper_char_def js_lower_char_def js_ws_def word_char_def char_of_eq_iff take_bit_eq_mod

lemma all_dropWhile_iff: "(\<forall>x \<in> set (dropWhile P s). P x) \<longleftrightarrow> (\<forall>x \<in> set s. P x)"
proof
  assume all: "\<forall>x \<in> set (dropWhile P s). P x"
  have "dropWhile P s = []"
  proof (rule ccontr)
    assume ne: "dropWhile P s \<noteq> []"
    then have "\<not> P (hd (dropWhile P s))" by (rule hd_dropWhile)
    moreover from ne have "hd (dropWhile P s) \<in> set (dropWhile P s)" by simp
    ultimately show False using all by blast
  qed
  then show "\<forall>x \<in> set s. P x" by (simp add: dropWhile_eq_Nil_conv)
next
  assume "\<forall>x \<in> set s. P x"
  then show "\<forall>x \<in> set (dropWhile P s). P x" by (blast dest: set_dropWhileD)
qed

text \<open>Trimming leaves nothing exactly of the strings made of whitespace only.\<close>

lemma trim_empty_iff: "js_trim s = [] \<longleftrightarrow> list_all js_ws s"
  by (simp add: js_trim_def all_dropWhile_iff list_all_iff)

lemma of_char_upper:
  "(of_char (js_upper_char x) :: nat) =
     (if (97 \<le> (of_char x :: nat) \<and> of_char x \<le> (122::nat))
         \<or> (224 \<le> (of_char x :: nat) \<and> of_char x \<le> (254::nat) \<and> of_char x \<noteq> (247::nat))
      then of_char x - 32 else of_char x)"
proof -
  have "(of_char x - 32 :: nat) mod 256 = of_char x - 32"
    using nat_of_char_less_256 [of x] by (intro mod_less) arith
  then show ?thesis
    by (simp add: js_upper_char_def Let_def)
qed

text \<open>Ignoring case, a character that is not a letter matches itself only, and \<open>T\<close>
  matches \<open>T\<close> and \<open>t\<close>.\<close>

lemma upper_eq_plain:
  assumes "of_char c < (65::nat) \<or> (90 < (of_char c :: nat) \<and> of_char c < (97::nat))"
  shows "js_upper_char x = js_upper_char c \<longleftrightarrow> x = c"
proof -
  have "js_upper_char x = js_upper_char c
      \<longleftrightarrow> (of_char (js_upper_char x) :: nat) = of_char (js_upper_char c)"
    by simp
  also have "\<dots> \<longleftrightarrow> (of_char x :: nat) = of_char c"
    using assms unfolding of_char_upper by auto
  finally show ?thesis by simp
qed

lemma upper_eq_T:
  "js_upper_char x = js_upper_char CHR ''T'' \<longleftrightarrow> x = CHR ''T'' \<or> x = CHR ''t''"
proof -
  have "js_upper_char x = js_upper_char CHR ''T''
      \<longleftrightarrow> (of_char (js_upper_char x) :: nat) = of_char (js_upper_char CHR ''T'')"
    by simp
  also have "\<dots> \<longleftrightarrow> (of_char x :: nat) = 84 \<or> (of_char x :: nat) = 116"
    unfolding of_char_upper by auto
  also have "\<dots> \<longleftrightarrow> x = CHR ''T'' \<or> x = CHR ''t''"
    using of_char_eq_iff [of x "CHR ''T''", where ?'a = nat]
      of_char_eq_iff [of x "CHR ''t''", where ?'a = nat]
    by simp
  finally show ?thesis .
qed

lemma sentinel_char:
  assumes "c \<in> set ''0001-01-01T00:00:00''"
  shows "js_upper_char x = js_upper_char c \<longleftrightarrow> x = c \<or> (c = CHR ''T'' \<and> x = CHR ''t'')"
proof (cases "c = CHR ''T''")
  case True
  then show ?thesis by (simp add: upper_eq_T)
next
  case False
  with assms have "of_char c < (65::nat)" by auto
  then have "js_upper_char x = js_upper_char c \<longleftrightarrow> x = c"
    by (intro upper_eq_plain) simp
  with False show ?thesis by simp
qed

lemma map_eq_iff_list_all2: "map f xs = map f ys \<longleftrightarrow> list_all2 (\<lambda>x y. f x = f y) xs ys"
proof -
  have "map f xs = map f ys \<longleftrightarrow> list_all2 (=) (map f xs) (map f ys)"
    by (simp add: list.rel_eq)
  then show ?thesis
    by (simp add: list.rel_map)
qed

text \<open>The regular expression of \<open>isMeaningfulEndsAt\<close> accepts exactly the strings that start
  with the zero timestamp.\<close>

lemma regex_is_zero_sentinel:
  "regex_ci_prefix ''0001-01-01T00:00:00'' s \<longleftrightarrow> zero_sentinel s"
proof -
  let ?p = "''0001-01-01T00:00:00''"
  let ?R = "\<lambda>x c. js_upper_char x = js_upper_char c"
  let ?Q = "\<lambda>x c. x = c \<or> (c = CHR ''T'' \<and> x = CHR ''t'')"
  have "list_all2 ?R xs ?p \<longleftrightarrow> list_all2 ?Q xs ?p" for xs
  proof
    assume "list_all2 ?R xs ?p"
    then show "list_all2 ?Q xs ?p"
      by (rule list.rel_mono_strong) (use sentinel_char in blast)
  next
    assume "list_all2 ?Q xs ?p"
    then show "list_all2 ?R xs ?p"
      by (rule list.rel_mono_strong) (use sentinel_char in blast)
  qed
  then have eq: "list_all2 ?R (take 19 s) ?p \<longleftrightarrow> list_all2 ?Q (take 19 s) ?p" .
  have len: "length ?p = 19"
    by simp
  show ?thesis
    unfolding regex_ci_prefix_def zero_sentinel_def map_eq_iff_list_all2 len eq ..
qed

lemma isMeaningfulEndsAt_iff:
  "isMeaningfulEndsAt endsAt \<longleftrightarrow> \<not> list_all js_ws endsAt \<and> \<not> zero_sentinel (js_trim endsAt)"
  by (simp add: isMeaningfulEndsAt_def truthy_str_def trim_empty_iff regex_is_zero_sentinel)

text \<open>
  Claim C8, as the spec states it, fails: \<open>0001-01-02T00:00:00Z\<close> is a timestamp whose
  year is 0001, and the payload normalized from an alert that ends then carries it as
  \<open>resolvedAt\<close>.
\<close>

theorem webhook_year_0001_counterexample:
  "year_is_0001 ''0001-01-02T00:00:00Z''
   \<and> p_resolvedAt (normalizedToApiPayload
        (normalizeOne example_runtime 0 0 (example_alert ''0001-01-02T00:00:00Z'') [] [] [])
        example_rule) = Some ''0001-01-02T00:00:00Z''"
  by (simp add: year_is_0001_def normalizedToApiPayload_def normalizeOne_def example_alert_def
      or_else_def isMeaningfulEndsAt_def regex_ci_prefix_def js_trim_def truthy_str_def
      js_char_eval Let_def)

text \<open>
  Claim C8, amended. In webhook normalization the payload's \<open>resolvedAt\<close> is absent when
  the item has no \<open>endsAt\<close>, when \<open>endsAt\<close> is empty or whitespace only, and when
  \<open>endsAt\<close>, trimmed, starts with the zero timestamp \<open>0001-01-01T00:00:00\<close> (the \<open>T\<close> in
  either case); for every other \<open>endsAt\<close> it equals \<open>endsAt\<close>, untrimmed.
\<close>

theorem webhook_resolvedAt_meaningful:
  "p_resolvedAt (normalizedToApiPayload (normalizeOne rt now rnd a groupLabels commonLabels commonAnnotations) config)
   = (case a_endsAt a of
        None \<Rightarrow> None
      | Some endsAt \<Rightarrow>
          if list_all js_ws endsAt \<or> zero_sentinel (js_trim endsAt) then None else Some endsAt)"
proof -
  have "p_resolvedAt (normalizedToApiPayload (normalizeOne rt now rnd a groupLabels commonLabels commonAnnotations) config)
      = (if isMeaningfulEndsAt (or_else (a_endsAt a) []) then Some (or_else (a_endsAt a) []) else None)"
    by (simp add: normalizedToApiPayload_def normalizeOne_def Let_def)
  also have "\<dots> = (case a_endsAt a of
        None \<Rightarrow> None
      | Some endsAt \<Rightarrow>
          if list_all js_ws endsAt \<or> zero_sentinel (js_trim endsAt) then None else Some endsAt)"
    by (simp add: isMeaningfulEndsAt_iff or_else_def split: option.split)
  finally show ?thesis .
qed

text \<open>The amended claim at the three kinds of \<open>endsAt\<close>: the zero timestamp of a firing
  alert, a blank string, and a real end time.\<close>

theorem webhook_resolvedAt_meaningful_witness:
  "p_resolvedAt (normalizedToApiPayload
      (normalizeOne example_runtime 0 0 (example_alert ''0001-01-01T00:00:00Z'') [] [] []) example_rule) = None
   \<and> p_resolvedAt (normalizedToApiPayload
      (normalizeOne example_runtime 0 0 (example_alert ''  '') [] [] []) example_rule) = None
   \<and> p_resolvedAt (normalizedToApiPayload
      (normalizeOne example_runtime 0 0 (example_alert ''2024-01-01T11:00:00Z'') [] [] []) example_rule)
       = Some ''2024-01-01T11:00:00Z''"
  using webhook_resolvedAt_meaningful [of example_runtime 0 0 "example_alert ''0001-01-01T00:00:00Z''" "[]" "[]" "[]" example_rule]
    webhook_resolvedAt_meaningful [of example_runtime 0 0 "example_alert ''  ''" "[]" "[]" "[]" example_rule]
    webhook_resolvedAt_meaningful [of example_runtime 0 0 "example_alert ''2024-01-01T11:00:00Z''" "[]" "[]" "[]" example_rule]
  by (simp add: example_alert_def zero_sentinel_def js_trim_def js_ws_def)

section \<open>The queued-envelope normalizer\<close>

lemmas example_eval =
  example_runtime_def example_envelope_def example_config_def example_rule_def
  alarm_text_def blank_detail_text_def

lemma normalize_nonblank: "nonblank s \<Longrightarrow> normalizeEventName (Some s) = replace_ws_runs (js_trim s)"
  by (simp add: normalizeEventName_def nonblank_def truthy_str_def)

lemma blank_empty: "\<not> nonblank []"
  by (simp add: nonblank_def js_trim_def)

lemma first_such_head:
  "first_such nonblank (so # rest) = (if truthy_trim so then so else first_such nonblank rest)"
  by (cases so) (simp_all add: truthy_trim_def nonblank_def truthy_str_def)

lemma truthy_trim_normalize:
  "truthy_trim so \<Longrightarrow> normalizeEventName so = replace_ws_runs (js_trim (the so))"
  by (cases so) (simp_all add: truthy_trim_def normalizeEventName_def)

text \<open>The name that a field of the parsed message contributes, and what follows when it
  contributes none.\<close>

lemma field_step:
  assumes "empty_or_nonblank (string_prop (Some msg) k)"
  shows "(case nonempty_string_prop msg k of Some s \<Rightarrow> normalizeEventName (Some s) | None \<Rightarrow> other)
       = (case first_such nonblank [string_prop (Some msg) k] of
            Some s \<Rightarrow> replace_ws_runs (js_trim s) | None \<Rightarrow> other)"
proof (cases "js_get msg k")
  case (JStr s)
  with assms have "s = [] \<or> nonblank s"
    by (simp add: empty_or_nonblank_def string_prop_def)
  with JStr show ?thesis
    by (auto simp: nonempty_string_prop_def string_prop_def truthy_str_def normalize_nonblank blank_empty)
qed (simp_all add: nonempty_string_prop_def string_prop_def)

lemma case_first_such_Cons:
  "(case first_such P (c # cs) of Some s \<Rightarrow> f s | None \<Rightarrow> d)
   = (case first_such P [c] of
        Some s \<Rightarrow> f s
      | None \<Rightarrow> (case first_such P cs of Some s \<Rightarrow> f s | None \<Rightarrow> d))"
  by (cases c) simp_all

lemma message_name:
  assumes "empty_or_nonblank (string_prop M ''detail-type'')"
    and "empty_or_nonblank (string_prop M ''source'')"
    and "empty_or_nonblank (string_prop M ''eventName'')"
  shows "(case M of
            None \<Rightarrow> DEFAULT_EVENT_NAME
          | Some msg \<Rightarrow>
              if js_truthy msg \<and> typeof_object msg then
                (case nonempty_string_prop msg ''detail-type'' of
                   Some s \<Rightarrow> normalizeEventName (Some s)
                 | None \<Rightarrow>
                (case nonempty_string_prop msg ''source'' of
                   Some s \<Rightarrow> normalizeEventName (Some s)
                 | None \<Rightarrow>
                (case nonempty_string_prop msg ''eventName'' of
                   Some s \<Rightarrow> normalizeEventName (Some s)
                 | None \<Rightarrow> DEFAULT_EVENT_NAME)))
              else DEFAULT_EVENT_NAME)
       = (case first_such nonblank
                 [string_prop M ''detail-type'', string_prop M ''source'', string_prop M ''eventName''] of
            Some s \<Rightarrow> replace_ws_runs (js_trim s)
          | None \<Rightarrow> ''sns'')"
proof (cases M)
  case None
  then show ?thesis by (simp add: string_prop_def DEFAULT_EVENT_NAME_def)
next
  case (Some msg)
  show ?thesis
  proof (cases "js_truthy msg \<and> typeof_object msg")
    case False
    then have "string_prop (Some msg) k = None" for k
      by (cases msg) (simp_all add: string_prop_def)
    with False Some show ?thesis by (auto simp: DEFAULT_EVENT_NAME_def)
  next
    case True
    let ?c = "\<lambda>k. first_such nonblank [string_prop (Some msg) k]"
    have "(case nonempty_string_prop msg ''detail-type'' of
                   Some s \<Rightarrow> normalizeEventName (Some s)
                 | None \<Rightarrow>
                (case nonempty_string_prop msg ''source'' of
                   Some s \<Rightarrow> normalizeEventName (Some s)
                 | None \<Rightarrow>
                (case nonempty_string_prop msg ''eventName'' of
                   Some s \<Rightarrow> normalizeEventName (Some s)
                 | None \<Rightarrow> DEFAULT_EVENT_NAME)))
      = (case ?c ''detail-type'' of Some s \<Rightarrow> replace_ws_runs (js_trim s) | None \<Rightarrow>
        (case ?c ''source'' of Some s \<Rightarrow> replace_ws_runs (js_trim s) | None \<Rightarrow>
        (case ?c ''eventName'' of Some s \<Rightarrow> replace_ws_runs (js_trim s) | None \<Rightarrow> ''sns'')))"
      using assms unfolding Some
      by (simp only: field_step DEFAULT_EVENT_NAME_def)
    also have "\<dots> = (case first_such nonblank
                 [string_prop (Some msg) ''detail-type'', string_prop (Some msg) ''source'',
                  string_prop (Some msg) ''eventName''] of
            Some s \<Rightarrow> replace_ws_runs (js_trim s)
          | None \<Rightarrow> ''sns'')"
      by (simp only: case_first_such_Cons [where cs = "[string_prop (Some msg) ''source'', string_prop (Some msg) ''eventName'']"]
          case_first_such_Cons [where cs = "[string_prop (Some msg) ''eventName'']"] first_such.simps option.case)
    finally show ?thesis
      using True Some by simp
  qed
qed

text \<open>
  Claim C7, as the spec states it, fails: for the Subject \<open>" a"\<close> the first non-empty
  candidate is \<open>" a"\<close>, and replacing its run of whitespace gives \<open>"_a"\<close>; the source trims
  the name first and returns \<open>"a"\<close>.
\<close>

theorem deriveEventName_counterexample:
  "deriveEventName example_runtime (example_envelope ''m'' (Some '' a'') ''plain'') = ''a''
   \<and> claimed_deriveEventName example_runtime (example_envelope ''m'' (Some '' a'') ''plain'') = ''_a''"
  by (simp add: deriveEventName_def claimed_deriveEventName_def eventNameCandidates_def example_eval
      truthy_trim_def normalizeEventName_def js_trim_def js_ws_def truthy_str_def attr_Value_def
      string_prop_def)

text \<open>
  Claim C7, amended. When each of the \<open>Message\<close> fields \<open>detail-type\<close>, \<open>source\<close> and
  \<open>eventName\<close> is absent, not a string, empty, or a string that is not blank,
  \<open>deriveEventName\<close> returns the first candidate that is not blank (something is left
  after trimming), in the order Subject, \<open>event_type\<close>, \<open>rule_name\<close>, \<open>detail-type\<close>,
  \<open>source\<close>, \<open>eventName\<close>, trimmed and with every remaining run of whitespace replaced by
  one underscore; with no such candidate it returns \<open>"sns"\<close>.
\<close>

theorem deriveEventName_first_nonblank:
  assumes "empty_or_nonblank (string_prop (JSON_parse rt (Message e)) ''detail-type'')"
    and "empty_or_nonblank (string_prop (JSON_parse rt (Message e)) ''source'')"
    and "empty_or_nonblank (string_prop (JSON_parse rt (Message e)) ''eventName'')"
  shows "deriveEventName rt e =
     (case first_such nonblank (eventNameCandidates rt e) of
        Some s \<Rightarrow> replace_ws_runs (js_trim s)
      | None \<Rightarrow> ''sns'')"
proof -
  let ?M = "JSON_parse rt (Message e)"
  let ?A = "\<lambda>n. attr_Value (MessageAttributes e) n"
  let ?rest = "[string_prop ?M ''detail-type'', string_prop ?M ''source'', string_prop ?M ''eventName'']"
  have cands: "eventNameCandidates rt e = Subject e # ?A ''event_type'' # ?A ''rule_name'' # ?rest"
    by (simp add: eventNameCandidates_def Let_def)
  have code: "deriveEventName rt e =
     (if truthy_trim (Subject e) then replace_ws_runs (js_trim (the (Subject e)))
      else if truthy_trim (?A ''event_type'') then replace_ws_runs (js_trim (the (?A ''event_type'')))
      else if truthy_trim (?A ''rule_name'') then replace_ws_runs (js_trim (the (?A ''rule_name'')))
      else (case first_such nonblank ?rest of
              Some s \<Rightarrow> replace_ws_runs (js_trim s)
            | None \<Rightarrow> ''sns''))"
    unfolding deriveEventName_def Let_def message_name [OF assms]
    by (simp add: truthy_trim_normalize)
  have head: "(case first_such nonblank (so # cs) of Some s \<Rightarrow> replace_ws_runs (js_trim s) | None \<Rightarrow> ''sns'')
      = (if truthy_trim so then replace_ws_runs (js_trim (the so))
         else (case first_such nonblank cs of Some s \<Rightarrow> replace_ws_runs (js_trim s) | None \<Rightarrow> ''sns''))"
    for so cs
    by (cases so) (simp_all add: truthy_trim_def nonblank_def truthy_str_def)
  show ?thesis
    unfolding code cands by (simp only: head)
qed

text \<open>The amended claim on the envelope of the repository's own test: the Subject
  \<open>"AWS Health Event"\<close> with a \<open>Message\<close> that is not JSON.\<close>

theorem deriveEventName_first_nonblank_witness:
  "empty_or_nonblank (string_prop (JSON_parse example_runtime
       (Message (example_envelope ''a'' (Some ''AWS Health Event'') ''plain''))) ''detail-type'')
   \<and> empty_or_nonblank (string_prop (JSON_parse example_runtime
       (Message (example_envelope ''a'' (Some ''AWS Health Event'') ''plain''))) ''source'')
   \<and> empty_or_nonblank (string_prop (JSON_parse example_runtime
       (Message (example_envelope ''a'' (Some ''AWS Health Event'') ''plain''))) ''eventName'')
   \<and> deriveEventName example_runtime (example_envelope ''a'' (Some ''AWS Health Event'') ''plain'')
       = ''AWS_Health_Event''"
proof -
  let ?e = "example_envelope ''a'' (Some ''AWS Health Event'') ''plain''"
  have h: "empty_or_nonblank (string_prop (JSON_parse example_runtime (Message ?e)) k)" for k
    by (simp add: example_eval string_prop_def empty_or_nonblank_def)
  have "deriveEventName example_runtime ?e =
     (case first_such nonblank (eventNameCandidates example_runtime ?e) of
        Some s \<Rightarrow> replace_ws_runs (js_trim s)
      | None \<Rightarrow> ''sns'')"
    using h h h by (rule deriveEventName_first_nonblank)
  then have "deriveEventName example_runtime ?e = ''AWS_Health_Event''"
    by (simp add: eventNameCandidates_def example_eval nonblank_def js_trim_def js_ws_def)
  with h show ?thesis by simp
qed

text \<open>What the amended claim leaves out: a \<open>detail-type\<close> that is one space is chosen,
  and the name is then \<open>"sns"\<close> although \<open>source\<close> holds \<open>"aws.ec2"\<close>.\<close>

lemma deriveEventName_blank_field:
  "deriveEventName example_runtime (example_envelope ''m'' None blank_detail_text) = ''sns''"
  by (simp add: deriveEventName_def example_eval truthy_trim_def normalizeEventName_def js_trim_def
      js_ws_def truthy_str_def attr_Value_def nonempty_string_prop_def DEFAULT_EVENT_NAME_def)

subsection \<open>The alert id of a queued envelope\<close>

lemmas sns_eval =
  produced_alertId_def snsEnvelopeToAlertPayload_def deriveEventName_def truthy_trim_def
  normalizeEventName_def js_trim_def js_ws_def truthy_str_def attr_Value_def
  nonempty_string_prop_def DEFAULT_EVENT_NAME_def parseResource_def js_slice0_def Let_def

text \<open>
  Claim C9, as stated, fails: the envelope with MessageId \<open>m\<close> whose alarm is named \<open>x\<close>
  and the envelope with MessageId \<open>m:x\<close> and no resource have distinct MessageIds and
  the same alert id \<open>m:x\<close>.
\<close>

theorem sns_alertId_counterexample:
  "MessageId (example_envelope ''m'' None alarm_text) \<noteq> MessageId (example_envelope ''m:x'' None ''plain'')
   \<and> produced_alertId (snsEnvelopeToAlertPayload example_runtime example_config 0
        (example_envelope ''m'' None alarm_text)) = Some ''m:x''
   \<and> produced_alertId (snsEnvelopeToAlertPayload example_runtime example_config 0
        (example_envelope ''m:x'' None ''plain'')) = Some ''m:x''"
  by (simp add: sns_eval example_eval split: prod.split)

lemma sns_payload_alertId:
  assumes "snsEnvelopeToAlertPayload rt config now e = Inr (Some p)"
  shows "parseResource rt e = Inr (p_resource p)
    \<and> p_alertId p = MessageId e @ (case p_resource p of
                                     None \<Rightarrow> []
                                   | Some r \<Rightarrow> if r = [] then [] else '':'' @ take 64 r)"
proof -
  obtain c where c: "config (deriveEventName rt e) = Some c" "truthy_str (cfg_channelId c)"
    using assms by (auto simp: snsEnvelopeToAlertPayload_def Let_def split: option.splits if_splits)
  obtain resource where r: "parseResource rt e = Inr resource"
    using assms c by (cases "parseResource rt e") (auto simp: snsEnvelopeToAlertPayload_def Let_def)
  from assms c r have "p_resource p = resource"
    and "p_alertId p = MessageId e @ (case resource of
                                     None \<Rightarrow> []
                                   | Some r \<Rightarrow> if truthy_str r then '':'' @ js_slice0 64 r else [])"
    by (auto simp: snsEnvelopeToAlertPayload_def Let_def case_prod_beta)
  with r show ?thesis
    by (auto simp: truthy_str_def js_slice0_def split: option.splits)
qed

text \<open>A payload is produced when the event name has a rule with a channel and the
  resource is derived.\<close>

lemma sns_payload_produced:
  assumes "config (deriveEventName rt e) = Some c" and "cfg_channelId c \<noteq> []"
    and "parseResource rt e = Inr resource"
  shows "\<exists>p. snsEnvelopeToAlertPayload rt config now e = Inr (Some p)"
  using assms by (simp add: snsEnvelopeToAlertPayload_def Let_def case_prod_beta truthy_str_def)

lemma id_before_colon:
  assumes "CHR '':'' \<notin> set m" and "suffix = [] \<or> hd suffix = CHR '':''"
  shows "takeWhile (\<lambda>c. c \<noteq> CHR '':'') (m @ suffix) = m"
proof -
  have "takeWhile (\<lambda>c. c \<noteq> CHR '':'') (m @ suffix) = m @ takeWhile (\<lambda>c. c \<noteq> CHR '':'') suffix"
    using assms(1) by (intro takeWhile_append2) auto
  moreover have "takeWhile (\<lambda>c. c \<noteq> CHR '':'') suffix = []"
    using assms(2) by (cases suffix) auto
  ultimately show ?thesis by simp
qed

text \<open>
  Claim C9, amended. Every payload produced by \<open>snsEnvelopeToAlertPayload\<close> has the
  derived resource as its \<open>resource\<close> and the envelope's MessageId as its \<open>alertId\<close>,
  with \<open>":"\<close> and the first 64 characters of the resource appended when the resource
  is present and not empty. For two envelopes whose MessageIds are distinct and contain
  no \<open>":"\<close>, the produced alert ids are distinct.
\<close>

theorem sns_alertId_from_MessageId:
  assumes "snsEnvelopeToAlertPayload rt config now e = Inr (Some p)"
    and "snsEnvelopeToAlertPayload rt' config' now' e' = Inr (Some p')"
  shows "parseResource rt e = Inr (p_resource p)
    \<and> p_alertId p = MessageId e @ (case p_resource p of
                                     None \<Rightarrow> []
                                   | Some r \<Rightarrow> if r = [] then [] else '':'' @ take 64 r)
    \<and> (CHR '':'' \<notin> set (MessageId e) \<and> CHR '':'' \<notin> set (MessageId e') \<and> MessageId e \<noteq> MessageId e'
         \<longrightarrow> p_alertId p \<noteq> p_alertId p')"
proof -
  let ?suffix = "\<lambda>q. (case p_resource q of
                        None \<Rightarrow> []
                      | Some r \<Rightarrow> if r = [] then [] else '':'' @ take 64 r)"
  have a: "p_alertId p = MessageId e @ ?suffix p" and r: "parseResource rt e = Inr (p_resource p)"
    using sns_payload_alertId [OF assms(1)] by simp_all
  have a': "p_alertId p' = MessageId e' @ ?suffix p'"
    using sns_payload_alertId [OF assms(2)] by simp
  have s: "?suffix q = [] \<or> hd (?suffix q) = CHR '':''" for q
    by (simp split: option.split)
  have "p_alertId p \<noteq> p_alertId p'"
    if "CHR '':'' \<notin> set (MessageId e)" "CHR '':'' \<notin> set (MessageId e')" "MessageId e \<noteq> MessageId e'"
  proof
    assume "p_alertId p = p_alertId p'"
    then have "takeWhile (\<lambda>c. c \<noteq> CHR '':'') (MessageId e @ ?suffix p)
        = takeWhile (\<lambda>c. c \<noteq> CHR '':'') (MessageId e' @ ?suffix p')"
      using a a' by simp
    then have "MessageId e = MessageId e'"
      using id_before_colon [OF that(1) s [of p]] id_before_colon [OF that(2) s [of p']] by simp
    with that(3) show False by simp
  qed
  with a r show ?thesis by blast
qed

text \<open>The amended claim on two deliveries of the same alarm: the ids \<open>m1\<close> and \<open>m2\<close> give
  the alert ids \<open>m1:x\<close> and \<open>m2:x\<close>.\<close>

theorem sns_alertId_from_MessageId_witness:
  "(\<exists>p p'. snsEnvelopeToAlertPayload example_runtime example_config 0
              (example_envelope ''m1'' None alarm_text) = Inr (Some p)
          \<and> snsEnvelopeToAlertPayload example_runtime example_config 0
              (example_envelope ''m2'' None alarm_text) = Inr (Some p')
          \<and> p_alertId p = ''m1:x'' \<and> p_alertId p' = ''m2:x'' \<and> p_alertId p \<noteq> p_alertId p')"
proof -
  have name: "deriveEventName example_runtime (example_envelope m None alarm_text) = ''sns''" for m
    by (simp add: deriveEventName_def example_eval truthy_trim_def attr_Value_def
        nonempty_string_prop_def DEFAULT_EVENT_NAME_def)
  have rule: "example_config ''sns'' = Some example_rule" "cfg_channelId example_rule \<noteq> []"
    by (simp_all add: example_config_def example_rule_def)
  have res: "parseResource example_runtime (example_envelope m None alarm_text) = Inr (Some ''x'')" for m
    by (simp add: parseResource_def example_eval)
  obtain p where p: "snsEnvelopeToAlertPayload example_runtime example_config 0
      (example_envelope ''m1'' None alarm_text) = Inr (Some p)"
    using sns_payload_produced [of example_config example_runtime, OF _ rule(2) res] rule(1) name
    by metis
  obtain p' where p': "snsEnvelopeToAlertPayload example_runtime example_config 0
      (example_envelope ''m2'' None alarm_text) = Inr (Some p')"
    using sns_payload_produced [of example_config example_runtime, OF _ rule(2) res] rule(1) name
    by metis
  have rp: "p_resource p = Some ''x''" "p_resource p' = Some ''x''"
    using sns_alertId_from_MessageId [OF p p'] sns_alertId_from_MessageId [OF p' p] res
    by simp_all
  have "p_alertId p = ''m1:x''" "p_alertId p' = ''m2:x''"
    using sns_alertId_from_MessageId [OF p p'] sns_alertId_from_MessageId [OF p' p] rp
    by (simp_all add: example_envelope_def)
  with p p' show ?thesis by simp
qed

section \<open>Validation of a pushed configuration\<close>

lemma validated_entry_valid: "isAlertTypeConfig v \<Longrightarrow> isAlertTypeConfig (validated_entry v)"
  by (simp add: isAlertTypeConfig_def validated_entry_def)

lemma validated_entry_idem: "validated_entry (validated_entry v) = validated_entry v"
  by (simp add: validated_entry_def split: jsval.split)

lemma validated_entry_passed: "entry_passed_through (validated_entry v) v"
  by (simp add: entry_passed_through_def validated_entry_def)

lemma set_update_subset: "set (AList.update k v al) \<subseteq> insert (k, v) (set al)"
  by (induction al) auto

lemma update_fresh: "k \<notin> fst ` set al \<Longrightarrow> AList.update k v al = al @ [(k, v)]"
  by (induction al) auto

text \<open>An accepted list holds valid entries only.\<close>

lemma validate_entries_all_valid:
  "validate_entries acc kvs = Inr out \<Longrightarrow> (k, v) \<in> set kvs \<Longrightarrow> isAlertTypeConfig v"
  by (induction acc kvs rule: validate_entries.induct) (auto split: if_splits)

text \<open>The error names the first entry that is not valid.\<close>

lemma validate_entries_first_invalid:
  assumes "(k, v) \<in> set kvs" and "\<not> isAlertTypeConfig v"
  shows "validate_entries acc kvs
         = Inl (entry_error (fst (hd (filter (\<lambda>(k, v). \<not> isAlertTypeConfig v) kvs))))"
  using assms by (induction acc kvs rule: validate_entries.induct) auto

lemma validate_entries_rejects:
  assumes "(k, v) \<in> set kvs" and "\<not> isAlertTypeConfig v"
  shows "\<exists>err. validate_entries acc kvs = Inl err"
  using assms validate_entries_all_valid [of acc kvs _ k v]
  by (cases "validate_entries acc kvs") auto

text \<open>With distinct keys, none of them in the object built so far, the loop appends
  the validated entries in order and leaves out the key \<open>__proto__\<close>.\<close>

lemma validate_entries_distinct:
  assumes "distinct (map fst kvs)" and "fst ` set kvs \<inter> fst ` set acc = {}"
    and "\<forall>(k, v) \<in> set kvs. isAlertTypeConfig v"
  shows "validate_entries acc kvs = Inr (acc @ kept_entries kvs)"
  using assms
proof (induction acc kvs rule: validate_entries.induct)
  case (1 out)
  then show ?case by (simp add: kept_entries_def)
next
  case (2 out k v rest)
  have valid: "isAlertTypeConfig v" using "2.prems"(3) by simp
  have fresh: "k \<notin> fst ` set out" using "2.prems"(2) by auto
  let ?out' = "obj_assign out k (validated_entry v)"
  have keys: "fst ` set ?out' \<subseteq> insert k (fst ` set out)"
    by (auto simp: obj_assign_def update_fresh [OF fresh])
  have "validate_entries ?out' rest = Inr (?out' @ kept_entries rest)"
  proof (rule "2.IH")
    show "\<not> \<not> isAlertTypeConfig v" using valid by simp
    show "distinct (map fst rest)" using "2.prems"(1) by simp
    show "fst ` set rest \<inter> fst ` set ?out' = {}"
    proof -
      have "k \<notin> fst ` set rest" using "2.prems"(1) by auto
      moreover have "fst ` set rest \<inter> fst ` set out = {}" using "2.prems"(2) by auto
      ultimately show ?thesis using keys by blast
    qed
    show "\<forall>(k, v) \<in> set rest. isAlertTypeConfig v" using "2.prems"(3) by simp
  qed
  then show ?case
    using valid by (simp add: obj_assign_def update_fresh [OF fresh] kept_entries_def)
qed

text \<open>What the loop returns is a well-formed configuration: distinct keys, none of them
  \<open>__proto__\<close>, every entry the validated form of a valid entry.\<close>

lemma well_formed_assign:
  assumes "well_formed al" and "isAlertTypeConfig v"
  shows "well_formed (obj_assign al k (validated_entry v))"
proof (cases "k = ''__proto__''")
  case True
  with assms show ?thesis by (simp add: obj_assign_def)
next
  case False
  have "distinct (map fst (AList.update k (validated_entry v) al))"
    using assms(1) by (simp add: well_formed_def distinct_update)
  moreover have "''__proto__'' \<notin> fst ` set (AList.update k (validated_entry v) al)"
    using assms(1) False by (simp add: well_formed_def dom_update)
  moreover have "\<forall>(k', e) \<in> set (AList.update k (validated_entry v) al).
      \<exists>v'. isAlertTypeConfig v' \<and> e = validated_entry v'"
    using assms set_update_subset [of k "validated_entry v" al]
    by (fastforce simp: well_formed_def)
  ultimately show ?thesis
    using False by (simp add: obj_assign_def well_formed_def)
qed

lemma validate_entries_well_formed:
  "well_formed acc \<Longrightarrow> validate_entries acc kvs = Inr out \<Longrightarrow> well_formed out"
  by (induction acc kvs rule: validate_entries.induct)
     (auto split: if_splits intro: well_formed_assign)

lemma kept_well_formed: "well_formed al \<Longrightarrow> kept_entries al = al"
proof (induction al)
  case Nil
  then show ?case by (simp add: kept_entries_def)
next
  case (Cons p al)
  obtain k e where p: "p = (k, e)" by (cases p)
  from Cons.prems obtain v where v: "e = validated_entry v" and k: "k \<noteq> ''__proto__''"
    by (auto simp: well_formed_def p)
  have "well_formed al" using Cons.prems by (auto simp: well_formed_def)
  then have "kept_entries al = al" by (rule Cons.IH)
  then show ?case
    using k v by (simp add: kept_entries_def p validated_entry_idem)
qed

lemma revalidate:
  assumes "well_formed al"
  shows "validate_entries [] al = Inr al"
proof -
  have "validate_entries [] al = Inr ([] @ kept_entries al)"
  proof (rule validate_entries_distinct)
    show "distinct (map fst al)" using assms by (simp add: well_formed_def)
    show "fst ` set al \<inter> fst ` set [] = {}" by simp
    show "\<forall>(k, v) \<in> set al. isAlertTypeConfig v"
      using assms by (auto simp: well_formed_def validated_entry_valid)
  qed
  then show ?thesis by (simp add: kept_well_formed [OF assms])
qed

lemma validate_object: "validateAlertsConfig (JObj kvs) = validate_entries [] kvs"
  by (simp add: validateAlertsConfig_def)

lemma validate_accepts_objects_only:
  "validateAlertsConfig data = Inr out \<Longrightarrow> \<exists>kvs. data = JObj kvs"
  by (cases data) (simp_all add: validateAlertsConfig_def)

lemma validate_idem:
  assumes "validateAlertsConfig data = Inr out"
  shows "validateAlertsConfig (JObj out) = Inr out"
proof -
  obtain kvs where "data = JObj kvs" using validate_accepts_objects_only [OF assms] by blast
  with assms have "validate_entries [] kvs = Inr out" by (simp add: validate_object)
  moreover have "well_formed []" by (simp add: well_formed_def)
  ultimately have "well_formed out" by (rule validate_entries_well_formed [rotated])
  then show ?thesis by (simp add: validate_object revalidate)
qed

text \<open>
  Claim C6. \<open>validateAlertsConfig\<close> rejects \<open>null\<close>, arrays and every value that is not an
  object. It rejects a configuration that has an entry without a string \<open>channelId\<close>. For
  an accepted object it returns the entries in order (the key \<open>__proto__\<close>, which an
  assignment cannot add, left out); for each it keeps \<open>channelId\<close>, passes
  \<open>suppressWindowMs\<close>, \<open>importantLabels\<close>, \<open>hiddenLabels\<close> and \<open>thumbnailUrl\<close> through
  unchanged and filters \<open>mentions\<close> to its string elements. And validating a returned
  configuration again succeeds and returns it unchanged.
\<close>

theorem validateAlertsConfig_contract:
  "validateAlertsConfig JNull = Inl ''Config must be a JSON object''
   \<and> validateAlertsConfig (JArr xs) = Inl ''Config must be a JSON object''
   \<and> (\<not> typeof_object data \<longrightarrow> validateAlertsConfig data = Inl ''Config must be a JSON object'')
   \<and> ((k, v) \<in> set kvs \<and> \<not> typeof_string (js_get v ''channelId'')
        \<longrightarrow> validateAlertsConfig (JObj kvs) = Inl (entry_error (fst (hd (filter (\<lambda>(k, v). \<not> isAlertTypeConfig v) kvs)))))
   \<and> (validateAlertsConfig (JObj kvs) = Inr out \<and> distinct (map fst kvs)
        \<longrightarrow> map fst out = filter (\<lambda>k. k \<noteq> ''__proto__'') (map fst kvs)
            \<and> (\<forall>(k, v) \<in> set kvs. k \<noteq> ''__proto__''
                  \<longrightarrow> (\<exists>e. map_of out k = Some e \<and> entry_passed_through e v)))
   \<and> (validateAlertsConfig data = Inr out \<longrightarrow> validateAlertsConfig (JObj out) = Inr out)"
proof -
  have prim: "validateAlertsConfig JNull = Inl ''Config must be a JSON object''"
    "validateAlertsConfig (JArr xs) = Inl ''Config must be a JSON object''"
    "\<not> typeof_object data \<longrightarrow> validateAlertsConfig data = Inl ''Config must be a JSON object''"
    by (simp_all add: validateAlertsConfig_def)
  have rej: "validateAlertsConfig (JObj kvs)
      = Inl (entry_error (fst (hd (filter (\<lambda>(k, v). \<not> isAlertTypeConfig v) kvs))))"
    if "(k, v) \<in> set kvs" "\<not> typeof_string (js_get v ''channelId'')"
  proof -
    from that have "(k, v) \<in> set kvs" "\<not> isAlertTypeConfig v"
      by (simp_all add: isAlertTypeConfig_def)
    then show ?thesis
      unfolding validate_object by (rule validate_entries_first_invalid)
  qed
  have acc: "map fst out = filter (\<lambda>k. k \<noteq> ''__proto__'') (map fst kvs)
      \<and> (\<forall>(k, v) \<in> set kvs. k \<noteq> ''__proto__''
            \<longrightarrow> (\<exists>e. map_of out k = Some e \<and> entry_passed_through e v))"
    if ok: "validateAlertsConfig (JObj kvs) = Inr out" and d: "distinct (map fst kvs)"
  proof -
    have valid: "\<forall>(k, v) \<in> set kvs. isAlertTypeConfig v"
      using ok validate_entries_all_valid [of "[]" kvs out] by (auto simp: validate_object)
    have "validate_entries [] kvs = Inr ([] @ kept_entries kvs)"
      using d valid by (intro validate_entries_distinct) simp_all
    with ok have out: "out = kept_entries kvs"
      by (simp add: validate_object)
    have keys: "map fst (kept_entries kvs) = filter (\<lambda>k. k \<noteq> ''__proto__'') (map fst kvs)"
      by (induction kvs) (auto simp: kept_entries_def)
    have look: "map_of (kept_entries kvs) k = Some (validated_entry v)"
      if "(k, v) \<in> set kvs" "k \<noteq> ''__proto__''" for k v
    proof -
      have "distinct (map fst (kept_entries kvs))"
        unfolding keys using d by (rule distinct_filter)
      moreover have "(k, validated_entry v) \<in> set (kept_entries kvs)"
        using that by (force simp: kept_entries_def)
      ultimately show ?thesis by (rule map_of_is_SomeI)
    qed
    show ?thesis
      unfolding out using keys look validated_entry_passed by blast
  qed
  show ?thesis
    using prim rej acc validate_idem by blast
qed

text \<open>The claim on the configuration of the repository's test: the two string mentions
  are kept, and the returned configuration validates to itself.\<close>

theorem validateAlertsConfig_contract_witness:
  "validateAlertsConfig example_pushed = Inr example_validated
   \<and> validateAlertsConfig (JObj example_validated) = Inr example_validated
   \<and> validateAlertsConfig (JObj [(''Alert'', JObj [(''channelId'', JNum 123)])])
       = Inl (entry_error ''Alert'')"
proof -
  have ok: "validateAlertsConfig example_pushed = Inr example_validated"
    by (simp add: validateAlertsConfig_def example_pushed_def example_validated_def
        isAlertTypeConfig_def validated_entry_def obj_assign_def)
  have in_set: "(''Alert'', JObj [(''channelId'', JNum 123)]) \<in> set [(''Alert'', JObj [(''channelId'', JNum 123)])]"
    and bad: "\<not> typeof_string (js_get (JObj [(''channelId'', JNum 123)]) ''channelId'')"
    by simp_all
  from validateAlertsConfig_contract [of _ example_pushed "''Alert''" "JObj [(''channelId'', JNum 123)]"
      "[(''Alert'', JObj [(''channelId'', JNum 123)])]" example_validated]
  have idem: "validateAlertsConfig example_pushed = Inr example_validated
        \<longrightarrow> validateAlertsConfig (JObj example_validated) = Inr example_validated"
    and rej: "(''Alert'', JObj [(''channelId'', JNum 123)]) \<in> set [(''Alert'', JObj [(''channelId'', JNum 123)])]
        \<and> \<not> typeof_string (js_get (JObj [(''channelId'', JNum 123)]) ''channelId'')
      \<longrightarrow> validateAlertsConfig (JObj [(''Alert'', JObj [(''channelId'', JNum 123)])])
          = Inl (entry_error (fst (hd (filter (\<lambda>(k, v). \<not> isAlertTypeConfig v)
                 [(''Alert'', JObj [(''channelId'', JNum 123)])]))))"
    by blast+
  from rej in_set bad have "validateAlertsConfig (JObj [(''Alert'', JObj [(''channelId'', JNum 123)])])
      = Inl (entry_error ''Alert'')"
    by (simp add: isAlertTypeConfig_def)
  with ok idem show ?thesis by simp
qed

section \<open>The dedup store\<close>

lemma ttlSec_examples: "ttlSec_of 5000 = 5" "ttlSec_of 100 = 1" "ttlSec_of 0 = 1" "ttlSec_of 300000 = 300"
  "ttlSec_of 600000 = 600"
  by (simp_all add: ttlSec_of_def)

text \<open>
  Claim C4, as stated, fails: \<open>isDuplicate\<close> is not atomic. Two calls for the fingerprint
  \<open>fp1\<close> on the empty store, the second sending its \<open>GET\<close> before the first has sent its
  \<open>SETEX\<close>, both return "new"; run one after the other, in either order, one of them
  returns "duplicate".
\<close>

theorem isDuplicate_not_atomic_counterexample:
  "run_two (''fp1'', 5000) (''fp1'', 5000) [False, True, False, True] (BeforeGet, BeforeGet, Map.empty)
     = (Returned False, Returned False, [dedupKey ''fp1'' \<mapsto> (RString ''1'', 5)])
   \<and> (False, False) \<notin> serial_results (''fp1'', 5000) (''fp1'', 5000) Map.empty"
  by (simp add: serial_results_def isDuplicate_redis_def redis_get_def redis_setex_def ttlSec_of_def
      Let_def)

text \<open>
  Claim C4, amended. \<open>isDuplicate\<close> is a \<open>GET\<close> followed, when the reply was \<open>null\<close>, by a
  \<open>SETEX\<close>: two requests, not one atomic operation. When nothing else touches the key
  between the two, for every fingerprint and \<open>ttlMs\<close>: if the fingerprint is absent from
  the store it is inserted with a time to live of \<open>max(1, ceil(ttlMs / 1000))\<close> seconds,
  which is at least one second, and the call returns "new" (\<open>False\<close>); if it is present
  the call returns "duplicate" (\<open>True\<close>) and leaves the store, and so the entry's time
  to live, unchanged. The first request never writes.
\<close>

theorem isDuplicate_sequential:
  "(redis_get r (dedupKey fingerprint) = None \<longrightarrow>
      isDuplicate_redis r fingerprint ttlMs
        = (False, r(dedupKey fingerprint \<mapsto> (RString ''1'', max 1 \<lceil>ttlMs / 1000\<rceil>)))
      \<and> 1 \<le> max 1 \<lceil>ttlMs / 1000\<rceil>)
   \<and> (redis_get r (dedupKey fingerprint) \<noteq> None \<longrightarrow> isDuplicate_redis r fingerprint ttlMs = (True, r))
   \<and> (case isDuplicate_step fingerprint ttlMs BeforeGet r of
         (pc, r1) \<Rightarrow> r1 = r \<and> isDuplicate_step fingerprint ttlMs pc r1
            = (Returned (fst (isDuplicate_redis r fingerprint ttlMs)),
               snd (isDuplicate_redis r fingerprint ttlMs)))
   \<and> isDuplicate w fingerprint ttlMs
       = (fst (isDuplicate_redis (w_redis w) fingerprint ttlMs),
          w\<lparr>w_redis := snd (isDuplicate_redis (w_redis w) fingerprint ttlMs),
            w_trace := w_trace w @ [Call_isDuplicate fingerprint ttlMs]\<rparr>)"
  by (auto simp: isDuplicate_redis_def isDuplicate_def redis_get_def redis_setex_def ttlSec_of_def
      Let_def emit_def)

text \<open>The amended claim on the empty store and on the store that holds \<open>fp1\<close>: the first
  call records \<open>fp1\<close> for 5 seconds, the second finds it and changes nothing.\<close>

theorem isDuplicate_sequential_witness:
  "redis_get Map.empty (dedupKey ''fp1'') = None
   \<and> isDuplicate_redis Map.empty ''fp1'' 5000 = (False, [dedupKey ''fp1'' \<mapsto> (RString ''1'', 5)])
   \<and> redis_get [dedupKey ''fp1'' \<mapsto> (RString ''1'', 5)] (dedupKey ''fp1'') \<noteq> None
   \<and> isDuplicate_redis [dedupKey ''fp1'' \<mapsto> (RString ''1'', 5)] ''fp1'' 300000
       = (True, [dedupKey ''fp1'' \<mapsto> (RString ''1'', 5)])"
proof -
  have absent: "redis_get Map.empty (dedupKey ''fp1'') = None"
    and present: "redis_get [dedupKey ''fp1'' \<mapsto> (RString ''1'', 5)] (dedupKey ''fp1'') \<noteq> None"
    by (simp_all add: redis_get_def)
  have "isDuplicate_redis Map.empty ''fp1'' 5000
      = (False, [dedupKey ''fp1'' \<mapsto> (RString ''1'', max 1 \<lceil>(5000::rat) / 1000\<rceil>)])"
    using isDuplicate_sequential [of Map.empty "''fp1''" 5000 empty_world] absent by blast
  moreover have "isDuplicate_redis [dedupKey ''fp1'' \<mapsto> (RString ''1'', 5)] ''fp1'' 300000
      = (True, [dedupKey ''fp1'' \<mapsto> (RString ''1'', 5)])"
    using isDuplicate_sequential [of "[dedupKey ''fp1'' \<mapsto> (RString ''1'', 5)]" "''fp1''" 300000 empty_world]
      present by blast
  ultimately show ?thesis
    using absent present by simp
qed

section \<open>The incident store and the handlers\<close>

text \<open>Incident records and dedup markers never share a key.\<close>

lemma alertKey_neq_dedupKey: "alertKey a r \<noteq> dedupKey f" "dedupKey f \<noteq> alertKey a r"
  by (simp_all add: alertKey_def dedupKey_def DEDUP_KEY_PREFIX_def)


lemma trace_set_emit:
  "w_trace (setStoredAlert (emit e w) a r s) = w_trace w @ [e, Call_setStoredAlert a r s]"
  by (simp add: setStoredAlert_def emit_def)




lemmas store_eval =
  getStoredAlert_def setStoredAlert_def deleteStoredAlert_def redis_get_def redis_setex_def
  redis_del_def emit_def alertKey_def dedupKey_def DEDUP_KEY_PREFIX_def world_with_def
  example_stored_def or_else_def

subsection \<open>The Acknowledge button\<close>




subsection \<open>Resolved events in the processor\<close>

lemma extends_refl: "extends P w w"
  by (simp add: extends_def)

lemma extends_emit: "extends P w w1 \<Longrightarrow> P e \<Longrightarrow> extends P w (emit e w1)"
  by (auto simp: extends_def emit_def)

lemma extends_setStoredAlert:
  "extends P w w1 \<Longrightarrow> P (Call_setStoredAlert a r s) \<Longrightarrow> extends P w (setStoredAlert w1 a r s)"
  by (auto simp: extends_def setStoredAlert_def emit_def redis_setex_def alertKey_neq_dedupKey)

lemma extends_deleteStoredAlert:
  "extends P w w1 \<Longrightarrow> P (Call_deleteStoredAlert a r) \<Longrightarrow> extends P w (deleteStoredAlert w1 a r)"
  by (auto simp: extends_def deleteStoredAlert_def emit_def redis_del_def alertKey_neq_dedupKey)

lemma ack_reminder_extends:
  "extends chat_event w w1 \<Longrightarrow> extends chat_event w (ack_reminder rt config d now w1 stored tc)"
  by (simp add: ack_reminder_def Let_def extends_emit)

lemma post_repeat_extends:
  "extends chat_event w w1 \<Longrightarrow> extends chat_event w (post_repeat rt config d now w1 payload stored tc)"
  by (simp add: post_repeat_def ack_reminder_extends extends_emit split: option.split)

lemma repeat_in_thread_extends:
  "extends chat_event w w1 \<Longrightarrow>
   extends chat_event w (snd (repeat_in_thread rt config d now w1 payload stored ch))"
  by (simp add: repeat_in_thread_def Let_def post_repeat_extends extends_emit split: option.split)

lemma update_existing_extends:
  assumes "update_existing rt config d now w1 payload stored = Some (m, w')"
    and "extends chat_event w w1"
  shows "extends chat_event w w'"
  using assms
  by (auto simp: update_existing_def Let_def split: fetch_result.splits if_splits
      intro!: extends_setStoredAlert repeat_in_thread_extends extends_emit)

lemma send_new_extends:
  "extends chat_event w w1 \<Longrightarrow> extends chat_event w (snd (send_new rt d now w1 payload))"
  by (simp add: send_new_def Let_def extends_setStoredAlert extends_emit
      split: fetch_result.split option.split)

text \<open>After its own entry in the trace, the chat mirror adds chat events only and leaves
  the dedup keys alone.\<close>

lemma sendOrUpdateAlert_extends:
  "extends chat_event (emit (Call_sendOrUpdateAlert payload) w)
     (snd (sendOrUpdateAlert rt config d now w payload))"
proof -
  let ?w = "emit (Call_sendOrUpdateAlert payload) w"
  have new: "extends chat_event ?w (snd (send_new rt d now ?w payload))"
    by (rule send_new_extends) (rule extends_refl)
  have upd: "extends chat_event ?w w'"
    if "update_existing rt config d now ?w payload s = Some (m, w')" for s m w'
    using that by (rule update_existing_extends) (rule extends_refl)
  show ?thesis
    using new upd
    by (auto simp: sendOrUpdateAlert_def Let_def extends_refl split: option.splits)
qed

lemma expiry_check_extends: "extends expiry_event w (expiry_check rt now w payload)"
  by (simp add: expiry_check_def Let_def extends_deleteStoredAlert extends_refl)

text \<open>The run of the processor on a resolved payload whose rule has a channel.\<close>

lemma resolved_run:
  assumes "p_status payload = Resolved"
    and "getAlertsConfig (or_else (p_ruleName payload) ''default'') = Some c"
    and "cfg_channelId c \<noteq> []"
  shows "processOneAlertPayload rt getAlertsConfig d now database w0 payload =
     (let w3 = expiry_check rt now
                 (clearDedup (emit (Inc ''alerts_received_total'') w0) (p_alertId payload)) payload;
          sent = sendOrUpdateAlert rt getAlertsConfig d now w3 payload
      in case fst sent of
           Inr messageId \<Rightarrow>
             (let w5 = emit (Inc ''alerts_sent_total'') (snd sent)
              in if database then emit (Call_insertAlertEvent payload messageId) w5 else w5)
         | Inl err \<Rightarrow> emit (Inc ''discord_errors_total'') (snd sent))"
  using assms
  by (simp add: processOneAlertPayload_def Let_def truthy_str_def case_prod_beta split: sum.split)

text \<open>Claim C1. For every payload whose status is \<open>resolved\<close> and whose rule name has a
  configuration entry with a channel id, a run of \<open>processOneAlertPayload\<close> adds to the
  trace, in this order: the counter of received alerts, the call \<open>clearDedup(alertId)\<close>,
  deletions of the lifecycle-expiry check, the call of \<open>sendOrUpdateAlert\<close> with the
  payload, what the chat mirror does, and the outcome (a counter, and the audit row).
  So the alert is handed to the chat mirror, after \<open>clearDedup\<close>; \<open>isDuplicate\<close> is not
  called and the counter of suppressed alerts is not touched; and in the store that the
  run leaves, the dedup key of the alert id is absent.\<close>

theorem resolved_never_suppressed:
  assumes "p_status payload = Resolved"
    and "getAlertsConfig (or_else (p_ruleName payload) ''default'') = Some c"
    and "cfg_channelId c \<noteq> []"
  shows "(let w' = processOneAlertPayload rt getAlertsConfig d now database w0 payload
          in (\<exists>dels chat tail.
                w_trace w' = w_trace w0 @
                  [Inc ''alerts_received_total'', Call_clearDedup (p_alertId payload)] @ dels
                  @ [Call_sendOrUpdateAlert payload] @ chat @ tail
                \<and> list_all expiry_event dels \<and> list_all chat_event chat \<and> list_all outcome_event tail)
             \<and> \<not> list_ex dedup_consulted (events_since w0 w')
             \<and> w_redis w' (dedupKey (p_alertId payload)) = None)"
proof -
  let ?a = "p_alertId payload"
  let ?w2 = "clearDedup (emit (Inc ''alerts_received_total'') w0) ?a"
  let ?w3 = "expiry_check rt now ?w2 payload"
  let ?sent = "sendOrUpdateAlert rt getAlertsConfig d now ?w3 payload"
  let ?w' = "processOneAlertPayload rt getAlertsConfig d now database w0 payload"
  have t2: "w_trace ?w2 = w_trace w0 @ [Inc ''alerts_received_total'', Call_clearDedup ?a]"
    and r2: "w_redis ?w2 (dedupKey ?a) = None"
    by (simp_all add: clearDedup_def emit_def redis_del_def)
  obtain dels where t3: "w_trace ?w3 = w_trace ?w2 @ dels" and dels: "list_all expiry_event dels"
    and r3: "w_redis ?w3 (dedupKey ?a) = w_redis ?w2 (dedupKey ?a)"
    using expiry_check_extends [of ?w2 rt now payload] by (auto simp: extends_def)
  obtain chat where t4: "w_trace (snd ?sent) = w_trace ?w3 @ [Call_sendOrUpdateAlert payload] @ chat"
    and chat: "list_all chat_event chat"
    and r4: "w_redis (snd ?sent) (dedupKey ?a) = w_redis ?w3 (dedupKey ?a)"
    using sendOrUpdateAlert_extends [of payload ?w3 rt getAlertsConfig d now]
    by (auto simp: extends_def emit_def)
  have "\<exists>tail. w_trace ?w' = w_trace (snd ?sent) @ tail \<and> list_all outcome_event tail
          \<and> w_redis ?w' = w_redis (snd ?sent)"
    unfolding resolved_run [of payload getAlertsConfig c rt d now database w0, OF assms]
    by (cases "fst ?sent"; cases database) (simp_all add: Let_def emit_def)
  then obtain tail where t5: "w_trace ?w' = w_trace (snd ?sent) @ tail"
    and tail: "list_all outcome_event tail"
    and r5: "w_redis ?w' = w_redis (snd ?sent)"
    by blast
  have trace: "w_trace ?w' = w_trace w0 @
      [Inc ''alerts_received_total'', Call_clearDedup ?a] @ dels @ [Call_sendOrUpdateAlert payload] @ chat @ tail"
    by (simp add: t5 t4 t3 t2)
  have "events_since w0 ?w' =
      [Inc ''alerts_received_total'', Call_clearDedup ?a] @ dels @ [Call_sendOrUpdateAlert payload] @ chat @ tail"
    by (simp add: events_since_def trace)
  moreover have "\<not> dedup_consulted e" if "expiry_event e \<or> chat_event e \<or> outcome_event e" for e
    using that by (cases e) auto
  ultimately have none: "\<not> list_ex dedup_consulted (events_since w0 ?w')"
    using dels chat tail by (auto simp: list_ex_iff list_all_iff)
  have "w_redis ?w' (dedupKey ?a) = None"
    by (simp add: r5 r4 r3 r2)
  with trace dels chat tail none show ?thesis
    unfolding Let_def by blast
qed

text \<open>The resolved event of the incident \<open>fp1\<close>, whose fingerprint is in the dedup store,
  at minute 10: the message is edited and the record stored as resolved.\<close>

theorem resolved_never_suppressed_witness:
  "(let w' = processOneAlertPayload example_runtime example_config example_discord 600000 False
               (world_with example_stored) (example_payload Resolved)
    in (\<exists>dels chat tail.
          w_trace w' = w_trace (world_with example_stored) @
            [Inc ''alerts_received_total'', Call_clearDedup ''fp1''] @ dels
            @ [Call_sendOrUpdateAlert (example_payload Resolved)] @ chat @ tail
          \<and> list_all expiry_event dels \<and> list_all chat_event chat \<and> list_all outcome_event tail)
       \<and> \<not> list_ex dedup_consulted (events_since (world_with example_stored) w')
       \<and> w_redis w' (dedupKey ''fp1'') = None)"
proof -
  have resolved: "p_status (example_payload Resolved) = Resolved"
    and rule: "example_config (or_else (p_ruleName (example_payload Resolved)) ''default'') = Some example_rule"
    and channel: "cfg_channelId example_rule \<noteq> []"
    and id: "p_alertId (example_payload Resolved) = ''fp1''"
    by (simp_all add: example_payload_def example_config_def example_rule_def or_else_def)
  note inst = resolved_never_suppressed [where payload = "example_payload Resolved"
      and getAlertsConfig = example_config and c = example_rule and rt = example_runtime
      and d = example_discord and now = 600000 and database = False
      and ?w0.0 = "world_with example_stored", OF resolved rule channel]
  then show ?thesis
    unfolding id .
qed

text \<open>The trace of that run, in full.\<close>

lemma resolved_run_example:
  "w_trace (processOneAlertPayload example_runtime example_config example_discord 600000 False
      (world_with example_stored) (example_payload Resolved))
   = [Inc ''alerts_received_total'', Call_clearDedup ''fp1'',
      Call_sendOrUpdateAlert (example_payload Resolved),
      Message_edit ''c1'' ''msg-1''
        (AlertMessage (example_payload Resolved) (alert_components (example_payload Resolved))),
      Call_setStoredAlert ''fp1'' None
        (example_stored\<lparr>sa_state := Resolved, sa_updatedAt := ''10'', sa_resolvedAt := Some ''10''\<rparr>),
      Inc ''alerts_sent_total'']"
  by (simp add: processOneAlertPayload_def clearDedup_def expiry_check_def resolved_expired_def
      ack_expired_def elapsed_gt_def
      sendOrUpdateAlert_def update_existing_def repeat_in_thread_def post_repeat_def
      ack_reminder_def updated_record_def Let_def store_eval
      example_payload_def example_discord_def example_runtime_def example_config_def example_rule_def
      truthy_opt_def truthy_str_def or_else_opt_def js_char_eval)

subsection \<open>The lifecycle-expiry check\<close>

text \<open>What the check leaves of a prior record: nothing when one of its two conditions
  holds, the record otherwise.\<close>

lemma expiry_check_deletes_iff:
  assumes "getStoredAlert w (p_alertId payload) (p_resource payload) = Some s"
  shows "getStoredAlert (expiry_check rt now w payload) (p_alertId payload) (p_resource payload)
         = (if resolved_expired rt now (Some s) \<or> ack_expired rt now (Some s) then None else Some s)"
  using assms
  by (simp add: expiry_check_def Let_def getStoredAlert_def deleteStoredAlert_def redis_get_def
      redis_del_def emit_def)

text \<open>On the records that have a \<open>resolvedAt\<close> exactly when their state is \<open>resolved\<close>, the
  two conditions of the check decide by the state and the age of the record, as
  \<open>claimed_delete\<close> does (the date of the empty string being invalid).\<close>

lemma expiry_check_agrees:
  assumes "Date_getTime rt [] = None"
    and "sa_resolvedAt s \<noteq> None \<longleftrightarrow> sa_state s = Resolved"
  shows "(resolved_expired rt now (Some s) \<or> ack_expired rt now (Some s)) = claimed_delete rt now s"
  using assms
  by (cases "sa_state s"; cases "sa_resolvedAt s"; cases "sa_acknowledgedAt s")
    (auto simp add: resolved_expired_def ack_expired_def claimed_delete_def or_else_opt_def
      truthy_opt_def truthy_str_def elapsed_gt_def RESOLVED_NEW_ALERT_AFTER_MS_def
      ACK_NEW_INCIDENT_AFTER_MS_def Let_def)

text \<open>Claim C3 says that the check deletes a prior record exactly when its state is
  \<open>resolved\<close> and it was resolved more than 30 minutes ago, or its state is
  \<open>acknowledged\<close> and it was acknowledged more than 90 minutes ago, and never a record
  in another state. The check reads \<open>resolvedAt\<close> without looking at the state. The
  incident \<open>fp1\<close>, resolved at minute 0, fires again at minute 10: the update path of
  \<open>sendOrUpdateAlert\<close> stores it as firing and carries \<open>resolvedAt\<close> forward. At minute 40
  the record is firing, the rule of the claim keeps it, and the check deletes it.\<close>

theorem expiry_check_deletes_firing_record:
  "getStoredAlert (snd (sendOrUpdateAlert example_runtime example_config example_discord 600000
       (world_with resolved_stored) (example_payload Firing))) ''fp1'' None = Some refired_stored
   \<and> sa_state refired_stored = Firing
   \<and> \<not> claimed_delete example_runtime 2400000 refired_stored
   \<and> getStoredAlert (world_with refired_stored) ''fp1'' None = Some refired_stored
   \<and> getStoredAlert (expiry_check example_runtime 2400000 (world_with refired_stored) (example_payload Firing))
        ''fp1'' None = None
   \<and> events_since (world_with refired_stored)
        (expiry_check example_runtime 2400000 (world_with refired_stored) (example_payload Firing))
       = [Call_deleteStoredAlert ''fp1'' None]"
proof -
  have "getStoredAlert (snd (sendOrUpdateAlert example_runtime example_config example_discord 600000
       (world_with resolved_stored) (example_payload Firing))) ''fp1'' None = Some refired_stored"
    by (simp add: sendOrUpdateAlert_def update_existing_def repeat_in_thread_def post_repeat_def
        ack_reminder_def updated_record_def Let_def store_eval resolved_stored_def refired_stored_def
        example_payload_def example_discord_def example_runtime_def example_config_def example_rule_def
        truthy_opt_def truthy_str_def or_else_opt_def js_char_eval)
  moreover have "sa_state refired_stored = Firing
   \<and> \<not> claimed_delete example_runtime 2400000 refired_stored
   \<and> getStoredAlert (world_with refired_stored) ''fp1'' None = Some refired_stored
   \<and> getStoredAlert (expiry_check example_runtime 2400000 (world_with refired_stored) (example_payload Firing))
        ''fp1'' None = None
   \<and> events_since (world_with refired_stored)
        (expiry_check example_runtime 2400000 (world_with refired_stored) (example_payload Firing))
       = [Call_deleteStoredAlert ''fp1'' None]"
    by (simp add: expiry_check_def resolved_expired_def ack_expired_def claimed_delete_def Let_def
        store_eval refired_stored_def example_payload_def example_runtime_def or_else_opt_def
        truthy_opt_def truthy_str_def elapsed_gt_def RESOLVED_NEW_ALERT_AFTER_MS_def
        ACK_NEW_INCIDENT_AFTER_MS_def events_since_def)
  ultimately show ?thesis
    by blast
qed

subsection \<open>Mention escalation\<close>



lemma mentionLevel_twice: "s\<lparr>sa_mentionLevel := a\<rparr>\<lparr>sa_mentionLevel := b\<rparr> = s\<lparr>sa_mentionLevel := b\<rparr>"
  by simp

lemma changed_world: "setStoredAlert (emit e w) a r s \<noteq> w"
proof
  assume "setStoredAlert (emit e w) a r s = w"
  then have "w_trace (setStoredAlert (emit e w) a r s) = w_trace w" by simp
  then show False by (simp add: trace_set_emit)
qed


lemma example_key:
  "3 \<le> length (js_split CHR '':'' ''alert:fp1:default'')"
  "key_alertId ''alert:fp1:default'' = ''fp1''"
  "key_resource ''alert:fp1:default'' = None"
  by (simp_all add: key_alertId_def key_resource_def)




text \<open>The timeline of an unattended critical incident updated at minute 0, with ticks at
  minutes 4, 5, 6, 9, 10, 14, 15 and 20: the three responders are pinged, in turn, by
  the ticks of minutes 5, 10 and 15, and \<open>updatedAt\<close> is still minute 0.\<close>

lemma escalation_timeline_example:
  "map (\<lambda>ts. map_option sa_mentionLevel
          (getStoredAlert (ticks example_runtime example_config example_discord ''alert:fp1:default'' ts
             (world_with example_stored)) ''fp1'' None))
     [[240000], [240000, 300000], [240000, 300000, 360000, 540000],
      [240000, 300000, 360000, 540000, 600000],
      [240000, 300000, 360000, 540000, 600000, 840000],
      [240000, 300000, 360000, 540000, 600000, 840000, 900000],
      [240000, 300000, 360000, 540000, 600000, 840000, 900000, 1200000]]
   = [Some None, Some (Some 1), Some (Some 1), Some (Some 2), Some (Some 2), Some (Some 3), Some (Some 3)]"
  "w_trace (ticks example_runtime example_config example_discord ''alert:fp1:default''
       [240000, 300000, 360000, 540000, 600000, 840000, 900000, 1200000] (world_with example_stored))
   = [Channel_send ''t1'' (escalation_message ''u1'' 0),
      Call_setStoredAlert ''fp1'' None (example_stored\<lparr>sa_mentionLevel := Some 1\<rparr>),
      Channel_send ''t1'' (escalation_message ''u2'' 1),
      Call_setStoredAlert ''fp1'' None (example_stored\<lparr>sa_mentionLevel := Some 2\<rparr>),
      Channel_send ''t1'' (escalation_message ''u3'' 2),
      Call_setStoredAlert ''fp1'' None (example_stored\<lparr>sa_mentionLevel := Some 3\<rparr>)]"
  by (simp_all add: escalateKey_def example_key store_eval example_config_def example_rule_def
      example_runtime_def example_discord_def toLowerCase_def js_char_eval
      MENTION_ESCALATION_STEP_MS_def js_index_def truthy_opt_def truthy_str_def Let_def)


end
